theory Spec2Isabelle
  imports Main
begin

section \<open>Python strings\<close>

text \<open>
  A Python \<open>str\<close> is modelled as a \<open>string\<close> whose characters are the code points
  below 256, so \<open>length\<close> is Python's \<open>len\<close>.  The apostrophe is written \<open>sq\<close>.
\<close>

abbreviation (input) sq :: string where
  "sq \<equiv> [CHR 0x27]"

text \<open>\<open>s.startswith(p)\<close>.\<close>

definition startswith :: "string \<Rightarrow> string \<Rightarrow> bool" where
  "startswith s p = (take (length p) s = p)"

text \<open>\<open>s.strip()\<close>: the characters Python's \<open>str.isspace\<close> accepts, below 256.\<close>

definition whitespace :: "char list" where
  "whitespace = [CHR 0x09, CHR 0x0A, CHR 0x0B, CHR 0x0C, CHR 0x0D, CHR 0x1C, CHR 0x1D,
     CHR 0x1E, CHR 0x1F, CHR 0x20, CHR 0x85, CHR 0xA0]"

definition isspace :: "char \<Rightarrow> bool" where
  "isspace c = (c \<in> set whitespace)"

definition strip :: "string \<Rightarrow> string" where
  "strip s = rev (dropWhile isspace (rev (dropWhile isspace s)))"

text \<open>\<open>s.count(sub)\<close>: occurrences that do not overlap, counted from the left;
  the empty string occurs \<open>len(s) + 1\<close> times.\<close>

fun count_sub :: "string \<Rightarrow> string \<Rightarrow> nat" where
  "count_sub sub [] = 0"
| "count_sub sub (c # s) =
     (if take (length sub) (c # s) = sub
      then Suc (count_sub sub (drop (length sub - 1) s))
      else count_sub sub s)"

definition py_count :: "string \<Rightarrow> string \<Rightarrow> nat" where
  "py_count s sub = (if sub = [] then length s + 1 else count_sub sub s)"

text \<open>\<open>s.lower()\<close> on the code points below 256: A to Z, and the Latin-1 capitals
  0xC0 to 0xDE except the multiplication sign 0xD7.\<close>

definition capitals :: "char list" where
  "capitals = ''ABCDEFGHIJKLMNOPQRSTUVWXYZ'' @
     [CHR 0xC0, CHR 0xC1, CHR 0xC2, CHR 0xC3, CHR 0xC4, CHR 0xC5, CHR 0xC6, CHR 0xC7,
      CHR 0xC8, CHR 0xC9, CHR 0xCA, CHR 0xCB, CHR 0xCC, CHR 0xCD, CHR 0xCE, CHR 0xCF,
      CHR 0xD0, CHR 0xD1, CHR 0xD2, CHR 0xD3, CHR 0xD4, CHR 0xD5, CHR 0xD6,
      CHR 0xD8, CHR 0xD9, CHR 0xDA, CHR 0xDB, CHR 0xDC, CHR 0xDD, CHR 0xDE]"

definition smalls :: "char list" where
  "smalls = ''abcdefghijklmnopqrstuvwxyz'' @
     [CHR 0xE0, CHR 0xE1, CHR 0xE2, CHR 0xE3, CHR 0xE4, CHR 0xE5, CHR 0xE6, CHR 0xE7,
      CHR 0xE8, CHR 0xE9, CHR 0xEA, CHR 0xEB, CHR 0xEC, CHR 0xED, CHR 0xEE, CHR 0xEF,
      CHR 0xF0, CHR 0xF1, CHR 0xF2, CHR 0xF3, CHR 0xF4, CHR 0xF5, CHR 0xF6,
      CHR 0xF8, CHR 0xF9, CHR 0xFA, CHR 0xFB, CHR 0xFC, CHR 0xFD, CHR 0xFE]"

definition lower_char :: "char \<Rightarrow> char" where
  "lower_char c = (case map_of (zip capitals smalls) c of Some d \<Rightarrow> d | None \<Rightarrow> c)"

definition lower :: "string \<Rightarrow> string" where
  "lower s = map lower_char s"

section \<open>Exceptions, the engine and the collaborators\<close>

text \<open>
  An exception is its class and its \<open>str(e)\<close>.  \<open>ConversionError\<close> is the class
  \<open>astype\<close> raises; \<open>UnsupportedEngineVersion\<close> is the spec's name for what the version
  gate raises and \<open>EngineError\<close> stands for whatever the engine raises on a query; the
  others are Python's own.
\<close>

datatype kind = ConversionError | UnsupportedEngineVersion | EngineError
  | AttributeError | IndexError | KeyError | ValueError

datatype exn = Exn (kind_of: kind) (str_of: string)

text \<open>What reaches the engine side, in order: a call of \<open>vertica_version\<close> with its
  \<open>condition\<close>, or a call of \<open>_executeSQL\<close> with its query text.\<close>

datatype event = VersionCheck "nat list" | ExecuteSQL string

text \<open>A \<open>vDataColumn\<close>: \<open>_alias\<close> and \<open>_transf\<close>, the chain of
  (expression template, declared type, category) triples.\<close>

record vDataColumn =
  c_alias :: string
  c_transf :: "(string \<times> string \<times> string) list"

text \<open>The state a call works on: the column, the parent's history (the messages
  \<open>_add_to_history\<close> has recorded) and the requests made to the engine side so far.\<close>

record state =
  column :: vDataColumn
  history :: "string list"
  requests :: "event list"

text \<open>
  The functions \<open>_typing.py\<close> imports from modules that are not part of the sources, with
  the parent's \<open>_genSQL\<close> and the runtime's \<open>str.format\<close> (applied to one positional
  argument).  They are parameters of the model: every theorem about \<open>astype\<close> holds for
  all of them.  \<open>executeSQL\<close> gives the engine's answer to a query text: an exception, or
  the first element of the first row (\<open>None\<close> for Python's \<open>None\<close>).  \<open>flex_isvmap\<close>
  is \<open>verticapy.sql.flex.isvmap(column, expr)\<close> with the requests it makes.
  \<open>add_to_history\<close> is the parent's \<open>_add_to_history\<close>, given the message: it raises,
  or the message is recorded.  \<open>save_verticapy_logs\<close> is the decorator of the public
  methods: what it does with the name of the method and the request before it calls the
  method, the requests it makes and the exception it raises instead of calling, if any.
\<close>

record collaborators =
  to_sql_dtype :: "string \<Rightarrow> string"
  guess_sep :: "string \<Rightarrow> string"
  to_category :: "string \<Rightarrow> string"
  clean_query :: "string \<Rightarrow> string"
  str_format :: "string \<Rightarrow> string \<Rightarrow> exn + string"
  vertica_version :: "nat list \<Rightarrow> exn + nat list"
  executeSQL :: "string \<Rightarrow> exn + string option"
  genSQL :: "vDataColumn \<Rightarrow> string"
  flex_isvmap :: "string \<Rightarrow> string \<Rightarrow> (exn + bool) \<times> event list"
  add_to_history :: "string \<Rightarrow> exn + unit"
  save_verticapy_logs :: "string \<Rightarrow> string \<Rightarrow> (exn + unit) \<times> event list"

definition call_vertica_version ::
  "collaborators \<Rightarrow> nat list \<Rightarrow> state \<Rightarrow> (exn + nat list) \<times> state" where
  "call_vertica_version env condition s =
     (vertica_version env condition, s\<lparr>requests := requests s @ [VersionCheck condition]\<rparr>)"

definition call_executeSQL ::
  "collaborators \<Rightarrow> string \<Rightarrow> state \<Rightarrow> (exn + string option) \<times> state" where
  "call_executeSQL env query s =
     (executeSQL env query, s\<lparr>requests := requests s @ [ExecuteSQL query]\<rparr>)"

section \<open>Reading a column: \<open>vDCTyping.category\<close>, \<open>ctype\<close> and the predicates\<close>

text \<open>\<open>self._transf[-1][2]\<close> and \<open>self._transf[-1][1].lower()\<close>: an \<open>IndexError\<close> on
  an empty chain.\<close>

definition category :: "vDataColumn \<Rightarrow> exn + string" where
  "category c =
     (if c_transf c = [] then Inl (Exn IndexError ''list index out of range'')
      else Inr (snd (snd (last (c_transf c)))))"

definition ctype :: "vDataColumn \<Rightarrow> exn + string" where
  "ctype c =
     (if c_transf c = [] then Inl (Exn IndexError ''list index out of range'')
      else Inr (lower (fst (snd (last (c_transf c))))))"

definition isarray :: "vDataColumn \<Rightarrow> exn + bool" where
  "isarray c = (case ctype c of Inl e \<Rightarrow> Inl e | Inr t \<Rightarrow> Inr (lower (take 5 t) = ''array''))"

definition isbool :: "vDataColumn \<Rightarrow> exn + bool" where
  "isbool c = (case ctype c of Inl e \<Rightarrow> Inl e | Inr t \<Rightarrow> Inr (take 4 t = ''bool''))"

definition isdate :: "vDataColumn \<Rightarrow> exn + bool" where
  "isdate c = (case category c of Inl e \<Rightarrow> Inl e | Inr g \<Rightarrow> Inr (g = ''date''))"

definition isnum :: "vDataColumn \<Rightarrow> exn + bool" where
  "isnum c = (case category c of Inl e \<Rightarrow> Inl e | Inr g \<Rightarrow> Inr (g = ''float'' \<or> g = ''int''))"

text \<open>\<open>isvmap\<close>: \<open>or\<close> is lazy, so the flex helper is called only when the category is
  not \<open>vmap\<close>; its requests are added to the state.\<close>

definition isvmap :: "collaborators \<Rightarrow> state \<Rightarrow> (exn + bool) \<times> state" where
  "isvmap env s =
     (case category (column s) of
        Inl e \<Rightarrow> (Inl e, s)
      | Inr g \<Rightarrow>
          if g = ''vmap'' then (Inr True, s)
          else (case flex_isvmap env (c_alias (column s)) (genSQL env (column s)) of
                  (r, evs) \<Rightarrow> (r, s\<lparr>requests := requests s @ evs\<rparr>)))"

section \<open>\<open>vDCTyping.astype\<close>\<close>

text \<open>
  The body of \<open>vDCTyping.astype\<close> (\<open>core/vdataframe/_typing.py\<close>, lines 193 to
  286), for a request given as a string.  A call takes the state and returns the value
  or the exception together with the state it leaves; what a step appends to the state
  stays there when a later step raises, as in Python.  Of a call of \<open>_executeSQL\<close> the
  query text is recorded, not its \<open>title\<close>, \<open>method\<close> and display options.  The
  decorator \<open>save_verticapy_logs\<close> of line 171 wraps the body: \<open>astype\<close> below is the
  body, \<open>decorated_astype\<close> the method a caller reaches.
\<close>

text \<open>The two queries, with the white space of the source's f-strings.  The first asks
  for the longest string of the column, the second tests the new expression on at most
  twenty rows.\<close>

definition biggest_str_query :: "string \<Rightarrow> string \<Rightarrow> string" where
  "biggest_str_query a sql =
     ''\<newline>                    SELECT \<newline>                        '' @ a @
     '' \<newline>                    FROM '' @ sql @
     '' \<newline>                    ORDER BY LENGTH('' @ a @
     '') DESC \<newline>                    LIMIT 1''"

definition cast_test_query :: "string \<Rightarrow> string \<Rightarrow> string \<Rightarrow> string" where
  "cast_test_query expr a sql =
     ''\<newline>                SELECT \<newline>                    /*+LABEL('vDataColumn.astype')*/ \<newline>                    '' @
     expr @ '' AS '' @ a @
     '' \<newline>                FROM '' @ sql @
     '' \<newline>                WHERE '' @ a @
     '' IS NOT NULL \<newline>                LIMIT 20''"

text \<open>The expression templates of the \<open>vmap\<close> branch (lines 212 to 224); the
  placeholder \<open>{}\<close> is filled by \<open>str.format\<close> later.\<close>

definition header_names :: "string \<Rightarrow> string" where
  "header_names dtype =
     (if length dtype > 4 \<and> take 5 dtype = ''vmap('' \<and> last dtype = CHR '')''
      then '', header_names='' @ sq @ butlast (drop 5 dtype) @ sq
      else [])"

definition vmap_transformation :: "string \<Rightarrow> string \<Rightarrow> string \<Rightarrow> string" where
  "vmap_transformation dtype biggest_str sep =
     (if length biggest_str > 2 \<and> hd biggest_str = CHR ''{'' \<and> last biggest_str = CHR ''}''
      then ''MAPJSONEXTRACTOR({} \<newline>                                                    USING PARAMETERS flatten_maps=false)''
      else ''MAPDELIMITEDEXTRACTOR({} \<newline>                                                            USING PARAMETERS \<newline>                                                            delimiter='' @
           sq @ sep @ sq @
           ''\<newline>                                                            '' @
           header_names dtype @ '')'')"

text \<open>The pieces and the template of the \<open>array\<close> branch (lines 227 to 245).\<close>

definition collection_null_element :: "string \<Rightarrow> string \<Rightarrow> string" where
  "collection_null_element biggest_str sep =
     (if py_count (filter (\<lambda>c. c \<noteq> CHR '' '') biggest_str) (sep @ sep) > 0
      then '', collection_null_element='' @ sq @ sq
      else [])"

definition bracketed :: "string \<Rightarrow> bool" where
  "bracketed biggest_str =
     (length biggest_str > 2 \<and>
      (hd biggest_str = CHR ''('' \<and> last biggest_str = CHR '')'' \<or>
       hd biggest_str = CHR ''{'' \<and> last biggest_str = CHR ''}''))"

definition collection_open :: "string \<Rightarrow> string" where
  "collection_open biggest_str =
     (if bracketed biggest_str then '', collection_open='' @ sq @ [hd biggest_str] @ sq else [])"

definition collection_close :: "string \<Rightarrow> string" where
  "collection_close biggest_str =
     (if bracketed biggest_str then '', collection_close='' @ sq @ [last biggest_str] @ sq else [])"

definition array_transformation :: "string \<Rightarrow> string \<Rightarrow> string" where
  "array_transformation biggest_str sep =
     ''\<newline>                        STRING_TO_ARRAY({} \<newline>                                        USING PARAMETERS \<newline>                                        collection_delimiter='' @
     sq @ sep @ sq @
     ''\<newline>                                        '' @ collection_open biggest_str @
     ''\<newline>                                        '' @ collection_close biggest_str @
     ''\<newline>                                        '' @ collection_null_element biggest_str sep @
     '')''"

text \<open>Lines 200 to 245: the probe for the longest string, \<open>strip\<close>, \<open>guess_sep\<close> and
  the template.  \<open>None.strip()\<close> is an \<open>AttributeError\<close>.  The result is the template
  with the value \<open>dtype\<close> has afterwards (the \<open>vmap\<close> branch overwrites it).  The
  enclosing test leaves only \<open>dtype == "array"\<close> for the second branch.\<close>

definition probe_and_extract ::
  "collaborators \<Rightarrow> string \<Rightarrow> state \<Rightarrow> (exn + string \<times> string) \<times> state" where
  "probe_and_extract env dtype s =
     (case call_executeSQL env
             (biggest_str_query (c_alias (column s)) (genSQL env (column s))) s of
        (Inl e, s1) \<Rightarrow> (Inl e, s1)
      | (Inr None, s1) \<Rightarrow>
          (Inl (Exn AttributeError (sq @ ''NoneType' object has no attribute 'strip'' @ sq)), s1)
      | (Inr (Some raw), s1) \<Rightarrow>
          (let biggest_str = strip raw; sep = guess_sep env biggest_str in
           if startswith dtype ''vmap''
           then (Inr (vmap_transformation dtype biggest_str sep, ''vmap''), s1)
           else (Inr (array_transformation biggest_str sep, dtype), s1)))"

text \<open>Lines 198 to 245: the version gate of \<open>array\<close>, then the probe.\<close>

definition extract_from_text ::
  "collaborators \<Rightarrow> string \<Rightarrow> state \<Rightarrow> (exn + string \<times> string) \<times> state" where
  "extract_from_text env dtype s =
     (if dtype = ''array''
      then (case call_vertica_version env [10, 0, 0] s of
              (Inl e, s1) \<Rightarrow> (Inl e, s1)
            | (Inr v, s1) \<Rightarrow> probe_and_extract env dtype s1)
      else probe_and_extract env dtype s)"

text \<open>Lines 252 to 262: \<open>json\<close>, and the plain cast.\<close>

definition json_or_cast ::
  "collaborators \<Rightarrow> string \<Rightarrow> state \<Rightarrow> (exn + string \<times> string) \<times> state" where
  "json_or_cast env dtype s =
     (if dtype = ''json''
      then (case category (column s) of
              Inl e \<Rightarrow> (Inl e, s)
            | Inr g \<Rightarrow>
                if g = ''vmap''
                then (Inr (''MAPTOSTRING({} USING PARAMETERS canonical_json=true)'', ''varchar''), s)
                else (case call_vertica_version env [10, 1, 0] s of
                        (Inl e, s1) \<Rightarrow> (Inl e, s1)
                      | (Inr v, s1) \<Rightarrow> (Inr (''TO_JSON({})'', ''varchar''), s1)))
      else (Inr (''{}::'' @ dtype, dtype), s))"

text \<open>Lines 246 to 262: the \<open>varchar\<close>/\<open>char\<close> family on a \<open>vmap\<close> column, else the
  rest of the ladder.  \<open>and\<close> is lazy: the category is read only when the type test
  holds.\<close>

definition maptostring_cast :: "string \<Rightarrow> string" where
  "maptostring_cast dtype =
     ''MAPTOSTRING({} \<newline>                                                   USING PARAMETERS \<newline>                                                   canonical_json=false)::'' @ dtype"

definition char_or_later ::
  "collaborators \<Rightarrow> string \<Rightarrow> state \<Rightarrow> (exn + string \<times> string) \<times> state" where
  "char_or_later env dtype s =
     (if take 7 dtype = ''varchar'' \<or> take 4 dtype = ''char''
      then (case category (column s) of
              Inl e \<Rightarrow> (Inl e, s)
            | Inr g \<Rightarrow>
                if g = ''vmap'' then (Inr (maptostring_cast dtype, dtype), s)
                else json_or_cast env dtype s)
      else json_or_cast env dtype s)"

text \<open>Lines 195 to 262, the whole ladder: the template \<open>transformation_2\<close> and the value
  of \<open>dtype\<close> after it, or the exception raised on the way.\<close>

definition transformation_2 ::
  "collaborators \<Rightarrow> string \<Rightarrow> state \<Rightarrow> (exn + string \<times> string) \<times> state" where
  "transformation_2 env dtype s =
     (if dtype = ''array'' \<or> startswith dtype ''vmap''
      then (case category (column s) of
              Inl e \<Rightarrow> (Inl e, s)
            | Inr g \<Rightarrow>
                if g = ''text'' then extract_from_text env dtype s
                else char_or_later env dtype s)
      else char_or_later env dtype s)"

text \<open>Lines 263 to 282: \<open>clean_query\<close>, \<open>format\<close>, the test query, and only then the
  append to \<open>_transf\<close> (line 278) and the call of \<open>_add_to_history\<close> (line 279).  The
  append comes first: when \<open>_add_to_history\<close> raises, the entry is already in the chain
  and stays there.\<close>

definition test_and_append ::
  "collaborators \<Rightarrow> string \<Rightarrow> string \<Rightarrow> state \<Rightarrow> (exn + unit) \<times> state" where
  "test_and_append env template dtype s =
     (let t2 = clean_query env template; a = c_alias (column s) in
      case str_format env t2 a of
        Inl e \<Rightarrow> (Inl e, s)
      | Inr t0 \<Rightarrow>
          (case call_executeSQL env (cast_test_query t0 a (genSQL env (column s))) s of
             (Inl e, s1) \<Rightarrow> (Inl e, s1)
           | (Inr r, s1) \<Rightarrow>
               (let s2 = s1\<lparr>column := (column s1)
                            \<lparr>c_transf := c_transf (column s1) @
                                [(t2, dtype, to_category env dtype)]\<rparr>\<rparr>;
                    msg = ''[AsType]: The vDataColumn '' @ a @ '' was converted to '' @ dtype @ ''.''
                in case add_to_history env msg of
                     Inl e \<Rightarrow> (Inl e, s2)
                   | Inr u \<Rightarrow> (Inr (), s2\<lparr>history := history s2 @ [msg]\<rparr>))))"

text \<open>The \<open>except\<close> clause: every exception of the \<open>try\<close> block becomes a
  \<open>ConversionError\<close> whose text is \<open>str(e)\<close>, a line break, and a sentence with the alias
  and the value \<open>dtype\<close> has at that moment.\<close>

definition conversion_error :: "exn \<Rightarrow> string \<Rightarrow> string \<Rightarrow> exn" where
  "conversion_error e a dtype =
     Exn ConversionError
       (str_of e @ ''\<newline>The vDataColumn '' @ a @ '' can not be converted to '' @ dtype)"

definition astype :: "collaborators \<Rightarrow> string \<Rightarrow> state \<Rightarrow> (exn + unit) \<times> state" where
  "astype env requested s =
     (let dtype = to_sql_dtype env requested in
      case transformation_2 env dtype s of
        (Inl e, s1) \<Rightarrow> (Inl (conversion_error e (c_alias (column s1)) dtype), s1)
      | (Inr (template, dtype'), s1) \<Rightarrow>
          (case test_and_append env template dtype' s1 of
             (Inl e, s2) \<Rightarrow> (Inl (conversion_error e (c_alias (column s2)) dtype'), s2)
           | (Inr u, s2) \<Rightarrow> (Inr u, s2)))"

text \<open>Line 171: the method as decorated.  The decorator runs first, outside the \<open>try\<close>
  block; what it raises reaches the caller as it is and the body is not run.\<close>

definition decorated_astype :: "collaborators \<Rightarrow> string \<Rightarrow> state \<Rightarrow> (exn + unit) \<times> state" where
  "decorated_astype env requested s =
     (case save_verticapy_logs env ''astype'' requested of
        (Inl e, evs) \<Rightarrow> (Inl e, s\<lparr>requests := requests s @ evs\<rparr>)
      | (Inr u, evs) \<Rightarrow> astype env requested (s\<lparr>requests := requests s @ evs\<rparr>))"

section \<open>The collaborators as the spec describes them\<close>

text \<open>
  Concrete collaborators, used to evaluate the model on examples.

  Modelled from the spec: \<open>to_sql_dtype\<close> (\<open>verticapy._utils._sql._cast\<close>, not in the
  sources).  "Normalize \<open>requested_type\<close> (trim, lower, ...)".
\<close>

definition normalize :: "string \<Rightarrow> string" where
  "normalize t = lower (strip t)"

text \<open>
  Modelled from the spec: \<open>to_category\<close> (\<open>verticapy._utils._sql._cast\<close>, not in the
  sources).  The classification table as far as the spec's words fix it: "\<open>vmap\<close> to
  \<open>vmap\<close>", \<open>array\<close> is not a category and keeps \<open>text\<close>, a \<open>varchar\<close> label is
  \<open>text\<close> (the end-to-end scenario), the families are "mapped directly" (a label that
  starts with a category's name has that category), "unknown to \<open>undefined\<close>".
\<close>

definition classification :: "string \<Rightarrow> string" where
  "classification t =
     (if startswith t ''vmap'' then ''vmap''
      else if t = ''array'' \<or> startswith t ''varchar'' \<or> startswith t ''char'' \<or>
              startswith t ''text''
        then ''text''
      else if startswith t ''int'' then ''int''
      else if startswith t ''float'' then ''float''
      else if startswith t ''date'' then ''date''
      else if startswith t ''binary'' then ''binary''
      else if startswith t ''spatial'' then ''spatial''
      else if startswith t ''uuid'' then ''uuid''
      else ''undefined'')"

text \<open>
  Modelled from the spec: \<open>vertica_version\<close> (\<open>verticapy._utils._sql._vertica_version\<close>,
  not in the sources).  "An engine-version query returning a version triple for gating
  version-dependent casts"; "\<open>UnsupportedEngineVersion\<close> (a cast requires a minimum
  engine version not met)".  Versions are compared component by component, the first
  difference deciding; the text of the exception is not described and is a parameter.
\<close>

fun meets :: "nat list \<Rightarrow> nat list \<Rightarrow> bool" where
  "meets v [] = True"
| "meets [] (c # cs) = (c = 0 \<and> meets [] cs)"
| "meets (v # vs) (c # cs) = (c < v \<or> (v = c \<and> meets vs cs))"

definition version_gate :: "string \<Rightarrow> nat list \<Rightarrow> nat list \<Rightarrow> exn + nat list" where
  "version_gate txt version condition =
     (if meets version condition then Inr version
      else Inl (Exn UnsupportedEngineVersion txt))"

text \<open>
  Modelled from the spec: \<open>guess_sep\<close> (\<open>verticapy._utils._parsers\<close>, not in the
  sources).  "Given the sample string, test a fixed priority-ordered list of delimiter
  candidates; choose the first candidate whose occurrence count in the sample is non-zero
  and maximal."  The spec does not list the candidates; a comma, a vertical bar and a
  semicolon occur in its scenarios, the comma before the semicolon.  It does not say what
  is chosen when no candidate occurs: the result is \<open>None\<close> then.
\<close>

definition guess_sep_spec :: "string list \<Rightarrow> string \<Rightarrow> string option" where
  "guess_sep_spec candidates sample =
     find (\<lambda>c. 0 < py_count sample c \<and>
               (\<forall>d \<in> set candidates. py_count sample d \<le> py_count sample c))
          candidates"

definition delimiters :: "string list" where
  "delimiters = ['','', ''|'', '';'']"

text \<open>
  \<open>str.format\<close> with one positional argument, for templates whose replacement fields are
  the empty field \<open>{}\<close>, a number or a plain key: \<open>{{\<close> and \<open>}}\<close> are the escaped
  braces, the first \<open>{}\<close> is the argument and a second one is an \<open>IndexError\<close>; a field
  of decimal digits is a position, the argument for 0 and an \<open>IndexError\<close> for any other,
  and a \<open>ValueError\<close> when it has too many digits or when numbered and empty fields are
  mixed; any other name is a key, a \<open>KeyError\<close> (there are no keyword arguments) whose
  text is the \<open>repr\<close> of the key; a brace left alone is a \<open>ValueError\<close>.  \<open>py_repr\<close>
  is \<open>repr\<close> on strings of code points below 256.  Conversions, format specifications,
  attribute and index lookups are not modelled: their characters count as part of a key.
\<close>

definition hex :: "nat \<Rightarrow> string" where
  "hex n = [''0123456789abcdef'' ! (n div 16), ''0123456789abcdef'' ! (n mod 16)]"

definition repr_char :: "char \<Rightarrow> char \<Rightarrow> string" where
  "repr_char q c =
     (let n = (of_char c :: nat) in
      if c = CHR 0x5C then [CHR 0x5C, CHR 0x5C]
      else if c = q then [CHR 0x5C, q]
      else if c = CHR 0x0A then [CHR 0x5C, CHR ''n'']
      else if c = CHR 0x0D then [CHR 0x5C, CHR ''r'']
      else if c = CHR 0x09 then [CHR 0x5C, CHR ''t'']
      else if n < 32 \<or> (127 \<le> n \<and> n \<le> 160) \<or> n = 173 then [CHR 0x5C, CHR ''x''] @ hex n
      else [c])"

definition py_repr :: "string \<Rightarrow> string" where
  "py_repr k =
     (let q = (if CHR 0x27 \<in> set k \<and> CHR 0x22 \<notin> set k then CHR 0x22 else CHR 0x27)
      in [q] @ concat (map (repr_char q) k) @ [q])"

text \<open>A field name of decimal digits is read as a number (of at most 63 bits), and
  written in decimal in the text of the \<open>IndexError\<close>.\<close>

definition digits :: string where
  "digits = ''0123456789''"

definition index_of :: "string \<Rightarrow> nat" where
  "index_of n = foldl (\<lambda>k c. 10 * k + (of_char c - 48)) 0 n"

function decimal :: "nat \<Rightarrow> string" where
  "decimal n = (if n < 10 then [digits ! n] else decimal (n div 10) @ [digits ! (n mod 10)])"
  by pat_completeness auto
termination
  by (relation "measure (\<lambda>n. n)") auto

declare decimal.simps [simp del]

text \<open>The numbering of the fields seen so far: none yet, automatic (an empty field), or
  manual (a number).  \<open>field_value\<close> is the value of the field named \<open>n\<close> and the
  numbering after it.\<close>

datatype numbering = Unset | Automatic | Manual

definition field_value :: "numbering \<Rightarrow> string \<Rightarrow> string \<Rightarrow> exn + string \<times> numbering" where
  "field_value used a n =
     (if n = []
      then (case used of
              Unset \<Rightarrow> Inr (a, Automatic)
            | Automatic \<Rightarrow>
                Inl (Exn IndexError
                       ''Replacement index 1 out of range for positional args tuple'')
            | Manual \<Rightarrow>
                Inl (Exn ValueError
                       ''cannot switch from manual field specification to automatic field numbering''))
      else if list_all (\<lambda>c. c \<in> set digits) n
      then (if 2 ^ 63 \<le> index_of n
            then Inl (Exn ValueError ''Too many decimal digits in format string'')
            else if used = Automatic
            then Inl (Exn ValueError
                        ''cannot switch from automatic field numbering to manual field specification'')
            else if index_of n = 0 then Inr (a, Manual)
            else Inl (Exn IndexError
                        (''Replacement index '' @ decimal (index_of n) @
                         '' out of range for positional args tuple'')))
      else Inl (Exn KeyError (py_repr n)))"

datatype mode = Text | Opened | Closed | Field string

fun format_from :: "mode \<Rightarrow> numbering \<Rightarrow> string \<Rightarrow> string \<Rightarrow> exn + string" where
  "format_from Text used a [] = Inr []"
| "format_from Opened used a [] =
     Inl (Exn ValueError (''Single '' @ sq @ ''{' encountered in format string''))"
| "format_from Closed used a [] =
     Inl (Exn ValueError (''Single '' @ sq @ ''}' encountered in format string''))"
| "format_from (Field n) used a [] =
     Inl (Exn ValueError (''expected '' @ sq @ ''}' before end of string''))"
| "format_from Text used a (c # t) =
     (if c = CHR ''{'' then format_from Opened used a t
      else if c = CHR ''}'' then format_from Closed used a t
      else (case format_from Text used a t of Inl e \<Rightarrow> Inl e | Inr w \<Rightarrow> Inr (c # w)))"
| "format_from Closed used a (c # t) =
     (if c = CHR ''}''
      then (case format_from Text used a t of Inl e \<Rightarrow> Inl e | Inr w \<Rightarrow> Inr (c # w))
      else Inl (Exn ValueError (''Single '' @ sq @ ''}' encountered in format string'')))"
| "format_from Opened used a (c # t) =
     (if c = CHR ''{''
      then (case format_from Text used a t of Inl e \<Rightarrow> Inl e | Inr w \<Rightarrow> Inr (c # w))
      else if c = CHR ''}''
      then (case field_value used a [] of
              Inl e \<Rightarrow> Inl e
            | Inr (v, used') \<Rightarrow>
                (case format_from Text used' a t of Inl e \<Rightarrow> Inl e | Inr w \<Rightarrow> Inr (v @ w)))
      else format_from (Field [c]) used a t)"
| "format_from (Field n) used a (c # t) =
     (if c = CHR ''{''
      then Inl (Exn ValueError (''unexpected '' @ sq @ ''{' in field name''))
      else if c = CHR ''}''
      then (case field_value used a n of
              Inl e \<Rightarrow> Inl e
            | Inr (v, used') \<Rightarrow>
                (case format_from Text used' a t of Inl e \<Rightarrow> Inl e | Inr w \<Rightarrow> Inr (v @ w)))
      else format_from (Field (n @ [c])) used a t)"

definition format_plain :: "string \<Rightarrow> string \<Rightarrow> exn + string" where
  "format_plain template a = format_from Text Unset a template"

text \<open>
  A frame over a table \<open>t\<close> on an engine of the given version that answers queries by
  \<open>answers\<close>.  \<open>clean_query\<close> is not described by the spec and leaves the text as it is
  here; when no delimiter occurs in the sample the first one is taken; the flex helper is
  not called by \<open>astype\<close>; \<open>_add_to_history\<close> records every message; the decorator
  does nothing before the call.
\<close>

definition scenario :: "nat list \<Rightarrow> (string \<Rightarrow> exn + string option) \<Rightarrow> collaborators" where
  "scenario version answers =
     \<lparr>to_sql_dtype = normalize,
      guess_sep = (\<lambda>sample. case guess_sep_spec delimiters sample of
                              Some c \<Rightarrow> c | None \<Rightarrow> hd delimiters),
      to_category = classification,
      clean_query = (\<lambda>q. q),
      str_format = format_plain,
      vertica_version = version_gate ''unsupported engine version'' version,
      executeSQL = answers,
      genSQL = (\<lambda>c. ''t''),
      flex_isvmap = (\<lambda>c e. (Inr False, [])),
      add_to_history = (\<lambda>m. Inr ()),
      save_verticapy_logs = (\<lambda>name requested. (Inr (), []))\<rparr>"

text \<open>A column \<open>age\<close> that currently is a \<open>vmap\<close>, nothing requested yet.\<close>

definition vmap_column :: state where
  "vmap_column =
     \<lparr>column = \<lparr>c_alias = ''age'', c_transf = [(''{}'', ''vmap'', ''vmap'')]\<rparr>,
      history = [], requests = []\<rparr>"

section \<open>The declared type an accepted cast appends\<close>

text \<open>
  The value \<open>dtype\<close> has when the entry is appended: the normalised request, except that
  a request of the \<open>vmap\<close> family on a \<open>text\<close> column is declared \<open>vmap\<close> and a
  \<open>json\<close> request is declared \<open>varchar\<close>.
\<close>

definition declared_after :: "collaborators \<Rightarrow> string \<Rightarrow> vDataColumn \<Rightarrow> string" where
  "declared_after env requested c =
     (let dtype = to_sql_dtype env requested in
      if startswith dtype ''vmap'' \<and> category c = Inr ''text'' then ''vmap''
      else if dtype = ''json'' then ''varchar''
      else dtype)"

section \<open>The casts of the examples\<close>




text \<open>A column \<open>age\<close> declared \<open>varchar\<close>, of category \<open>text\<close>, nothing requested
  yet; and its cast to \<open>array\<close> on an engine of version 9.3.0.\<close>

definition text_column :: state where
  "text_column =
     \<lparr>column = \<lparr>c_alias = ''age'', c_transf = [(''{}'', ''varchar'', ''text'')]\<rparr>,
      history = [], requests = []\<rparr>"


text \<open>The \<open>text\<close> column \<open>age\<close> is cast to \<open>" JSON "\<close> on an engine of version
  11.0.0 that accepts every query.\<close>

definition to_json_cast :: "(exn + unit) \<times> state" where
  "to_json_cast = astype (scenario [11, 0, 0] (\<lambda>q. Inr None)) '' JSON '' text_column"

text \<open>A \<open>text\<close> column \<open>price\<close> and an engine that rejects every query; the casts of
  \<open>price\<close> to \<open>int\<close> and of the \<open>vmap\<close> column \<open>age\<close> to \<open>json\<close> on it.\<close>

definition price_column :: state where
  "price_column =
     \<lparr>column = \<lparr>c_alias = ''price'', c_transf = [(''{}'', ''varchar'', ''text'')]\<rparr>,
      history = [], requests = []\<rparr>"

definition rejecting :: "string \<Rightarrow> exn + string option" where
  "rejecting q = Inl (Exn EngineError ''cannot evaluate the expression'')"

definition price_cast :: "(exn + unit) \<times> state" where
  "price_cast = astype (scenario [11, 0, 0] rejecting) ''int'' price_column"

definition rejected_json_cast :: "(exn + unit) \<times> state" where
  "rejected_json_cast = astype (scenario [11, 0, 0] rejecting) ''json'' vmap_column"


text \<open>A parent whose \<open>_add_to_history\<close> raises, and the cast of \<open>price\<close> to \<open>int\<close>
  on an engine that accepts every query.\<close>

definition unrecorded_cast :: "(exn + unit) \<times> state" where
  "unrecorded_cast =
     astype ((scenario [11, 0, 0] (\<lambda>q. Inr None))
               \<lparr>add_to_history := (\<lambda>m. Inl (Exn AttributeError ''no history''))\<rparr>)
       ''int'' price_column"

section \<open>Counting requests\<close>

text \<open>The requests that are queries sent through \<open>_executeSQL\<close>: the probes.\<close>

fun is_probe :: "event \<Rightarrow> bool" where
  "is_probe (ExecuteSQL q) = True"
| "is_probe (VersionCheck c) = False"

text \<open>
  Modelled from the spec: what \<open>vertica_version\<close> (not in the sources) costs.  The
  spec lists "an engine-version query returning a version triple for gating
  version-dependent casts" among the uses of \<open>execute_query\<close>, so a version check is a
  round trip to the engine like a probe.
\<close>

definition round_trips :: "event list \<Rightarrow> nat" where
  "round_trips evs = length evs"

text \<open>The \<open>text\<close> column \<open>age\<close> is cast to \<open>array\<close> on an engine of version 11.0.0
  whose longest string is \<open>1,2,3\<close>.\<close>

definition array_cast :: "(exn + unit) \<times> state" where
  "array_cast =
     astype (scenario [11, 0, 0] (\<lambda>q. Inr (Some ''1,2,3''))) ''array'' text_column"

text \<open>
  \<open>save_verticapy_logs\<close> (\<open>verticapy._utils._sql._collect\<close>) is not in the sources and
  the spec does not describe it.  By its name it saves a log of the call; this stand-in
  sends one statement that names the method, and then lets the method run.  The same
  cast under it, through the decorated method.
\<close>

definition logging :: "string \<Rightarrow> string \<Rightarrow> (exn + unit) \<times> event list" where
  "logging name requested = (Inr (), [ExecuteSQL (''SELECT /*+LABEL(verticapy_json)*/ '' @ name)])"

definition logging_scenario :: "(string \<Rightarrow> exn + string option) \<Rightarrow> collaborators" where
  "logging_scenario answers = (scenario [11, 0, 0] answers)\<lparr>save_verticapy_logs := logging\<rparr>"

definition logged_array_cast :: "(exn + unit) \<times> state" where
  "logged_array_cast =
     decorated_astype (logging_scenario (\<lambda>q. Inr (Some ''1,2,3''))) ''array'' text_column"

text \<open>The end-to-end scenario of the spec: the \<open>text\<close> column \<open>age\<close>, whose
  longest string is \<open>10|20|30\<close>, is cast to \<open>vmap\<close> and then to \<open>varchar\<close>.\<close>

definition vmap_cast :: "(exn + unit) \<times> state" where
  "vmap_cast =
     astype (scenario [11, 0, 0] (\<lambda>q. Inr (Some ''10|20|30''))) ''vmap'' text_column"

definition varchar_cast :: "(exn + unit) \<times> state" where
  "varchar_cast =
     astype (scenario [11, 0, 0] (\<lambda>q. Inr (Some ''10|20|30''))) ''varchar'' (snd vmap_cast)"

text \<open>The \<open>text\<close> column \<open>age\<close> is cast to \<open>array\<close> on an engine of version 11.0.0
  whose longest string is \<open>{1,2,3}\<close>.\<close>

definition brace_array_cast :: "(exn + unit) \<times> state" where
  "brace_array_cast =
     astype (scenario [11, 0, 0] (\<lambda>q. Inr (Some ''{1,2,3}''))) ''array'' text_column"

text \<open>The same cast when the longest string is \<open>(1,2,3)\<close>.\<close>

definition paren_array_cast :: "(exn + unit) \<times> state" where
  "paren_array_cast =
     astype (scenario [11, 0, 0] (\<lambda>q. Inr (Some ''(1,2,3)''))) ''array'' text_column"


section \<open>A flex helper that asks the engine\<close>

text \<open>
  \<open>verticapy.sql.flex.isvmap\<close> is not in the sources and the spec does not describe it.
  \<open>vDCTyping.isvmap\<close> hands it the alias and the frame's SQL, which is what a helper
  needs to ask the engine about the column.  This stand-in sends one query and answers
  whether a value came back; it raises what the engine raises.
\<close>

definition probing_isvmap ::
  "(string \<Rightarrow> exn + string option) \<Rightarrow> string \<Rightarrow> string \<Rightarrow> (exn + bool) \<times> event list" where
  "probing_isvmap answers a sql =
     (let q = ''SELECT MAPVERSION('' @ a @ '') FROM '' @ sql @ '' LIMIT 1''
      in (case answers q of Inl e \<Rightarrow> Inl e | Inr r \<Rightarrow> Inr (r \<noteq> None), [ExecuteSQL q]))"

definition flex_scenario :: "(string \<Rightarrow> exn + string option) \<Rightarrow> collaborators" where
  "flex_scenario answers = (scenario [11, 0, 0] answers)\<lparr>flex_isvmap := probing_isvmap answers\<rparr>"

section \<open>Unfolding rules\<close>

lemmas python_defs = startswith_def strip_def isspace_def whitespace_def py_count_def
  lower_def lower_char_def capitals_def smalls_def

lemmas scenario_defs = scenario_def normalize_def classification_def version_gate_def
  guess_sep_spec_def delimiters_def format_plain_def field_value_def digits_def
  py_repr_def repr_char_def hex_def

lemmas astype_defs = astype_def transformation_2_def char_or_later_def json_or_cast_def
  extract_from_text_def probe_and_extract_def test_and_append_def conversion_error_def
  call_executeSQL_def call_vertica_version_def category_def ctype_def

section \<open>What the ladder and the test leave unchanged\<close>

lemma startswith_vmap: "startswith dtype ''vmap'' = (take 4 dtype = ''vmap'')"
  by (simp add: startswith_def eval_nat_numeral)

lemma probe_and_extract_frame:
  "probe_and_extract env dtype s = (r, s1) \<Longrightarrow>
     s1 = s\<lparr>requests := requests s @
            [ExecuteSQL (biggest_str_query (c_alias (column s)) (genSQL env (column s)))]\<rparr>"
  by (auto simp: probe_and_extract_def call_executeSQL_def Let_def
           split: sum.splits option.splits if_splits)

lemma extract_from_text_frame:
  "extract_from_text env dtype s = (r, s1) \<Longrightarrow>
     \<exists>evs. s1 = s\<lparr>requests := requests s @ evs\<rparr> \<and>
       (evs = [VersionCheck [10, 0, 0]] \<and> dtype = ''array'' \<and> (\<exists>e. r = Inl e) \<or>
        evs = [VersionCheck [10, 0, 0],
               ExecuteSQL (biggest_str_query (c_alias (column s)) (genSQL env (column s)))] \<and>
          dtype = ''array'' \<or>
        evs = [ExecuteSQL (biggest_str_query (c_alias (column s)) (genSQL env (column s)))] \<and>
          dtype \<noteq> ''array'')"
  by (auto simp: extract_from_text_def call_vertica_version_def
           split: sum.splits if_splits dest!: probe_and_extract_frame)

lemma json_or_cast_frame:
  "json_or_cast env dtype s = (r, s1) \<Longrightarrow>
     s1 = s \<or> s1 = s\<lparr>requests := requests s @ [VersionCheck [10, 1, 0]]\<rparr> \<and> dtype = ''json''"
  by (auto simp: json_or_cast_def call_vertica_version_def split: sum.splits if_splits)

lemma char_or_later_frame:
  "char_or_later env dtype s = (r, s1) \<Longrightarrow>
     s1 = s \<or> s1 = s\<lparr>requests := requests s @ [VersionCheck [10, 1, 0]]\<rparr> \<and> dtype = ''json''"
  by (auto simp: char_or_later_def split: sum.splits if_splits dest: json_or_cast_frame)

lemma transformation_2_frame:
  "transformation_2 env dtype s = (r, s1) \<Longrightarrow> column s1 = column s \<and> history s1 = history s"
  by (auto simp: transformation_2_def split: sum.splits if_splits
           dest: char_or_later_frame dest!: extract_from_text_frame)

lemma json_or_cast_dtype:
  "json_or_cast env dtype s = (Inr (t, d), s1) \<Longrightarrow>
     d = (if dtype = ''json'' then ''varchar'' else dtype)"
  by (auto simp: json_or_cast_def call_vertica_version_def split: sum.splits if_splits)

lemma char_or_later_dtype:
  "char_or_later env dtype s = (Inr (t, d), s1) \<Longrightarrow>
     d = (if dtype = ''json'' then ''varchar'' else dtype)"
  by (auto simp: char_or_later_def split: sum.splits if_splits dest: json_or_cast_dtype)

lemma extract_from_text_dtype:
  "extract_from_text env dtype s = (Inr (t, d), s1) \<Longrightarrow>
     d = (if startswith dtype ''vmap'' then ''vmap'' else dtype)"
  by (auto simp: extract_from_text_def probe_and_extract_def call_vertica_version_def
        call_executeSQL_def Let_def split: sum.splits if_splits option.splits)

lemma transformation_2_dtype:
  "transformation_2 env dtype s = (Inr (t, d), s1) \<Longrightarrow>
     d = (if startswith dtype ''vmap'' \<and> category (column s) = Inr ''text'' then ''vmap''
          else if dtype = ''json'' then ''varchar'' else dtype)"
  by (auto simp: transformation_2_def startswith_def split: sum.splits if_splits
           dest: char_or_later_dtype extract_from_text_dtype)


lemma test_and_append_Inr:
  assumes "test_and_append env t d s = (Inr u, s1)"
  shows "c_alias (column s1) = c_alias (column s)"
    and "c_transf (column s1) = c_transf (column s) @ [(clean_query env t, d, to_category env d)]"
    and "history s1 = history s @
           [''[AsType]: The vDataColumn '' @ c_alias (column s) @ '' was converted to '' @ d @ ''.'']"
    and "\<exists>expr x. str_format env (clean_query env t) (c_alias (column s)) = Inr expr \<and>
           executeSQL env (cast_test_query expr (c_alias (column s)) (genSQL env (column s)))
             = Inr x \<and>
           requests s1 = requests s @
             [ExecuteSQL (cast_test_query expr (c_alias (column s)) (genSQL env (column s)))]"
  using assms
  by (auto simp: test_and_append_def call_executeSQL_def Let_def split: sum.splits)

lemma category_snoc: "c_transf c = xs @ [(t, d, g)] \<Longrightarrow> category c = Inr g"
  by (simp add: category_def)

lemma ctype_snoc: "c_transf c = xs @ [(t, d, g)] \<Longrightarrow> ctype c = Inr (lower d)"
  by (simp add: ctype_def)


lemma astype_dispatch_Inl:
  "transformation_2 env (to_sql_dtype env requested) s = (Inl e0, s1) \<Longrightarrow>
     astype env requested s =
       (Inl (conversion_error e0 (c_alias (column s1)) (to_sql_dtype env requested)), s1)"
  by (simp add: astype_def)

lemma astype_test_Inl:
  "transformation_2 env (to_sql_dtype env requested) s = (Inr (t, d), s1) \<Longrightarrow>
   test_and_append env t d s1 = (Inl e0, s2) \<Longrightarrow>
     astype env requested s = (Inl (conversion_error e0 (c_alias (column s2)) d), s2)"
  by (simp add: astype_def)

lemma astype_test_Inr:
  "transformation_2 env (to_sql_dtype env requested) s = (Inr (t, d), s1) \<Longrightarrow>
   test_and_append env t d s1 = (Inr u, s2) \<Longrightarrow>
     astype env requested s = (Inr u, s2)"
  by (simp add: astype_def)


lemma astype_Inr:
  assumes "astype env requested s = (Inr u, s')"
  shows "\<exists>t d s1. transformation_2 env (to_sql_dtype env requested) s = (Inr (t, d), s1) \<and>
            test_and_append env t d s1 = (Inr u, s')"
proof (cases "transformation_2 env (to_sql_dtype env requested) s")
  case (Pair r1 s1)
  show ?thesis
  proof (cases r1)
    case (Inl e0)
    with Pair have "transformation_2 env (to_sql_dtype env requested) s = (Inl e0, s1)" by simp
    from astype_dispatch_Inl [OF this] assms show ?thesis by simp
  next
    case (Inr td)
    obtain t d where td: "td = (t, d)" by (cases td)
    from Pair Inr td
    have disp: "transformation_2 env (to_sql_dtype env requested) s = (Inr (t, d), s1)"
      by simp
    obtain r2 s2 where app: "test_and_append env t d s1 = (r2, s2)"
      by (cases "test_and_append env t d s1")
    show ?thesis
    proof (cases r2)
      case (Inl e0)
      with app have "test_and_append env t d s1 = (Inl e0, s2)" by simp
      from astype_test_Inl [OF disp this] assms show ?thesis by simp
    next
      case (Inr u')
      with app have app': "test_and_append env t d s1 = (Inr u', s2)" by simp
      from astype_test_Inr [OF disp app'] assms disp app' show ?thesis by auto
    qed
  qed
qed


section \<open>C1: a failed cast changes nothing, an accepted cast appends one entry\<close>






text \<open>The other way a cast fails: the validation probe is accepted, the entry is
  appended, and \<open>_add_to_history\<close> raises.  The caller receives a \<open>ConversionError\<close>
  and the chain has the new entry.\<close>

lemma unrecorded_cast_keeps_entry:
  "fst unrecorded_cast =
     Inl (Exn ConversionError ''no history\<newline>The vDataColumn price can not be converted to int'') \<and>
   c_transf (column (snd unrecorded_cast)) =
     [(''{}'', ''varchar'', ''text''), (''{}::int'', ''int'', ''int'')] \<and>
   history (snd unrecorded_cast) = []"
  by (simp add: unrecorded_cast_def astype_defs scenario_defs python_defs price_column_def
        Let_def)

section \<open>C2: the version gate of \<open>array\<close>\<close>




section \<open>C3: the cast to \<open>json\<close>\<close>

lemma transformation_2_json:
  "transformation_2 env ''json'' s = json_or_cast env ''json'' s"
  by (simp add: transformation_2_def char_or_later_def startswith_def)

lemma json_or_cast_json_Inr:
  assumes "json_or_cast env ''json'' s = (Inr (t, d), s1)"
  shows "d = ''varchar'' \<and>
         (if category (column s) = Inr ''vmap''
          then t = ''MAPTOSTRING({} USING PARAMETERS canonical_json=true)'' \<and> s1 = s
          else t = ''TO_JSON({})'' \<and> (\<exists>v. vertica_version env [10, 1, 0] = Inr v) \<and>
               s1 = s\<lparr>requests := requests s @ [VersionCheck [10, 1, 0]]\<rparr>)"
  using assms
  by (auto simp: json_or_cast_def call_vertica_version_def split: sum.splits if_splits)

text \<open>
  C3.  A request that normalises to exactly \<open>json\<close> and is accepted appends an entry
  declared \<open>varchar\<close> (so \<open>ctype\<close> is \<open>varchar\<close> afterwards).  On a \<open>vmap\<close> column
  the expression is the cleaned \<open>MAPTOSTRING({} USING PARAMETERS canonical_json=true)\<close>
  and the only request to the engine side is the test query: no version is asked for.
  On any other column the version gate \<open>vertica_version(condition=[10, 1, 0])\<close> was
  called before the test query and did not raise (for the gate of the spec: the engine's
  version is at least 10.1.0), and the expression is the cleaned \<open>TO_JSON({})\<close>.
\<close>

theorem astype_json:
  assumes "to_sql_dtype env requested = ''json''"
    and "astype env requested s = (Inr u, s')"
  shows "fst (snd (last (c_transf (column s')))) = ''varchar'' \<and>
         ctype (column s') = Inr ''varchar'' \<and>
         (if category (column s) = Inr ''vmap''
          then fst (last (c_transf (column s'))) =
                 clean_query env ''MAPTOSTRING({} USING PARAMETERS canonical_json=true)'' \<and>
               (\<exists>q. requests s' = requests s @ [ExecuteSQL q])
          else fst (last (c_transf (column s'))) = clean_query env ''TO_JSON({})'' \<and>
               (\<exists>v. vertica_version env [10, 1, 0] = Inr v) \<and>
               (\<forall>txt version. vertica_version env = version_gate txt version \<longrightarrow>
                  meets version [10, 1, 0]) \<and>
               (\<exists>q. requests s' = requests s @ [VersionCheck [10, 1, 0], ExecuteSQL q]))"
proof -
  from astype_Inr [OF assms(2)] assms(1) obtain t d s1 where
    disp: "json_or_cast env ''json'' s = (Inr (t, d), s1)" and
    app: "test_and_append env t d s1 = (Inr u, s')"
    by (auto simp: transformation_2_json)
  note j = json_or_cast_json_Inr [OF disp]
  note a = test_and_append_Inr [OF app]
  from j have d: "d = ''varchar''" by simp
  from a(2) d have last: "last (c_transf (column s')) = (clean_query env t, ''varchar'', to_category env ''varchar'')"
    by simp
  from a(2) d have ct: "ctype (column s') = Inr ''varchar''"
    by (simp add: ctype_def python_defs)
  show ?thesis
  proof (cases "category (column s) = Inr ''vmap''")
    case True
    with j a(4) last ct show ?thesis by auto
  next
    case False
    with j obtain v where v: "vertica_version env [10, 1, 0] = Inr v" by auto
    have "meets version [10, 1, 0]"
      if "vertica_version env = version_gate msg version" for msg version
      using v that by (simp add: version_gate_def split: if_splits)
    with False j a(4) last ct show ?thesis by auto
  qed
qed

text \<open>The \<open>text\<close> column \<open>age\<close> on an engine of version 11.0.0: the request
  \<open>" JSON "\<close> normalises to \<open>json\<close>, the gate for 10.1.0 passes, and the entry
  appended is \<open>TO_JSON({})\<close>, declared \<open>varchar\<close>.\<close>

theorem astype_json_witness:
  "to_sql_dtype (scenario [11, 0, 0] (\<lambda>q. Inr None)) '' JSON '' = ''json'' \<and>
   fst to_json_cast = Inr () \<and>
   category (column text_column) \<noteq> Inr ''vmap'' \<and>
   last (c_transf (column (snd to_json_cast))) = (''TO_JSON({})'', ''varchar'', ''text'') \<and>
   ctype (column (snd to_json_cast)) = Inr ''varchar'' \<and>
   vertica_version (scenario [11, 0, 0] (\<lambda>q. Inr None)) [10, 1, 0] = Inr [11, 0, 0]"
proof -
  have n: "to_sql_dtype (scenario [11, 0, 0] (\<lambda>q. Inr None)) '' JSON '' = ''json''"
    by (simp add: scenario_defs python_defs)
  have r: "fst to_json_cast = Inr ()"
    by (simp add: to_json_cast_def astype_defs scenario_defs python_defs text_column_def Let_def)
  then have "astype (scenario [11, 0, 0] (\<lambda>q. Inr None)) '' JSON '' text_column
          = (Inr (), snd to_json_cast)"
    by (simp add: to_json_cast_def prod_eq_iff)
  from astype_json [OF n this] r n show ?thesis
    by (simp add: to_json_cast_def astype_defs scenario_defs python_defs text_column_def Let_def)
qed

section \<open>The requests a cast makes\<close>

lemma biggest_str_query_not_test:
  "biggest_str_query a sql \<noteq> cast_test_query expr a' sql'"
  by (simp add: biggest_str_query_def cast_test_query_def)

lemma transformation_2_requests:
  assumes "transformation_2 env dtype s = (r, s1)"
  shows "\<exists>vs qs. requests s1 = requests s @ vs @ qs \<and>
           (vs = [] \<or> (\<exists>c. vs = [VersionCheck c])) \<and>
           (qs = [] \<or>
            qs = [ExecuteSQL (biggest_str_query (c_alias (column s)) (genSQL env (column s)))])"
proof -
  have "(\<exists>evs. s1 = s\<lparr>requests := requests s @ evs\<rparr> \<and>
          (evs = [VersionCheck [10, 0, 0]] \<or>
           evs = [VersionCheck [10, 0, 0],
                  ExecuteSQL (biggest_str_query (c_alias (column s)) (genSQL env (column s)))] \<or>
           evs = [ExecuteSQL (biggest_str_query (c_alias (column s)) (genSQL env (column s)))])) \<or>
        s1 = s \<or> s1 = s\<lparr>requests := requests s @ [VersionCheck [10, 1, 0]]\<rparr>"
    using assms
    by (auto simp: transformation_2_def split: sum.splits if_splits
             dest: char_or_later_frame dest!: extract_from_text_frame)
  then show ?thesis
  proof (elim disjE exE conjE)
    fix evs assume "s1 = s\<lparr>requests := requests s @ evs\<rparr>" "evs = [VersionCheck [10, 0, 0]]"
    then have "requests s1 = requests s @ [VersionCheck [10, 0, 0]] @ []" by simp
    then show ?thesis by blast
  next
    fix evs assume "s1 = s\<lparr>requests := requests s @ evs\<rparr>"
      "evs = [VersionCheck [10, 0, 0],
              ExecuteSQL (biggest_str_query (c_alias (column s)) (genSQL env (column s)))]"
    then have "requests s1 = requests s @ [VersionCheck [10, 0, 0]] @
        [ExecuteSQL (biggest_str_query (c_alias (column s)) (genSQL env (column s)))]" by simp
    then show ?thesis by blast
  next
    fix evs assume "s1 = s\<lparr>requests := requests s @ evs\<rparr>"
      "evs = [ExecuteSQL (biggest_str_query (c_alias (column s)) (genSQL env (column s)))]"
    then have "requests s1 = requests s @ [] @
        [ExecuteSQL (biggest_str_query (c_alias (column s)) (genSQL env (column s)))]" by simp
    then show ?thesis by blast
  next
    assume "s1 = s"
    then have "requests s1 = requests s @ [] @ []" by simp
    then show ?thesis by blast
  next
    assume "s1 = s\<lparr>requests := requests s @ [VersionCheck [10, 1, 0]]\<rparr>"
    then have "requests s1 = requests s @ [VersionCheck [10, 1, 0]] @ []" by simp
    then show ?thesis by blast
  qed
qed

lemma transformation_2_no_test:
  assumes "transformation_2 env dtype s = (r, s1)"
  shows "requests s1 \<noteq> requests s @ evs @ [ExecuteSQL (cast_test_query expr a sql)]"
proof
  assume h: "requests s1 = requests s @ evs @ [ExecuteSQL (cast_test_query expr a sql)]"
  from transformation_2_requests [OF assms] obtain vs qs where
    r: "requests s1 = requests s @ vs @ qs" and
    vs: "vs = [] \<or> (\<exists>c. vs = [VersionCheck c])" and
    qs: "qs = [] \<or>
         qs = [ExecuteSQL (biggest_str_query (c_alias (column s)) (genSQL env (column s)))]"
    by blast
  from h r have "vs @ qs = evs @ [ExecuteSQL (cast_test_query expr a sql)]" by simp
  with vs qs show False
    by (auto simp: biggest_str_query_not_test append_eq_append_conv2 Cons_eq_append_conv
           append_eq_Cons_conv)
qed

lemma test_and_append_cases:
  "test_and_append env t d s =
     (case str_format env (clean_query env t) (c_alias (column s)) of
        Inl e \<Rightarrow> (Inl e, s)
      | Inr expr \<Rightarrow>
          (case executeSQL env (cast_test_query expr (c_alias (column s)) (genSQL env (column s))) of
             Inl e \<Rightarrow> (Inl e, s\<lparr>requests := requests s @
                 [ExecuteSQL (cast_test_query expr (c_alias (column s)) (genSQL env (column s)))]\<rparr>)
           | Inr x \<Rightarrow>
               (case add_to_history env
                       (''[AsType]: The vDataColumn '' @ c_alias (column s) @
                        '' was converted to '' @ d @ ''.'') of
                  Inl e \<Rightarrow>
                    (Inl e,
                     s\<lparr>column := (column s)
                           \<lparr>c_transf := c_transf (column s) @
                               [(clean_query env t, d, to_category env d)]\<rparr>,
                       requests := requests s @
                         [ExecuteSQL (cast_test_query expr (c_alias (column s))
                            (genSQL env (column s)))]\<rparr>)
                | Inr u \<Rightarrow>
                    (Inr (),
                     s\<lparr>column := (column s)
                           \<lparr>c_transf := c_transf (column s) @
                               [(clean_query env t, d, to_category env d)]\<rparr>,
                       history := history s @
                         [''[AsType]: The vDataColumn '' @ c_alias (column s) @
                          '' was converted to '' @ d @ ''.''],
                       requests := requests s @
                         [ExecuteSQL (cast_test_query expr (c_alias (column s))
                            (genSQL env (column s)))]\<rparr>))))"
  by (simp add: test_and_append_def call_executeSQL_def Let_def split: sum.splits)

section \<open>C4: the test query comes before the append\<close>

text \<open>
  C4, as the code has it.  Write \<open>Q expr\<close> for the test query
  \<open>SELECT /*+LABEL('vDataColumn.astype')*/ expr AS alias FROM sql WHERE alias IS NOT
  NULL LIMIT 20\<close> (\<open>cast_test_query\<close>, with the line breaks of the source).  If
  \<open>astype\<close> returns, the last request it made is \<open>Q expr\<close>, where \<open>expr\<close> is the
  appended template formatted with the alias, and the engine accepted it: no entry is
  appended without an accepted test query.  If the last request \<open>astype\<close> made is a
  test query that the engine rejected with \<open>e0\<close>, \<open>astype\<close> raises a
  \<open>ConversionError\<close> whose text is the text of \<open>e0\<close>, a line break, and the sentence
  with the alias and the declared type of the entry under test (\<open>declared_after\<close>: the
  normalised request, but \<open>varchar\<close> for \<open>json\<close> and \<open>vmap\<close> for \<open>vmap...\<close> on a
  \<open>text\<close> column); the column and the history are unchanged.
\<close>

theorem astype_test_query:
  assumes "astype env requested s = (r, s')"
  shows "(\<forall>u. r = Inr u \<longrightarrow>
            (\<exists>expr x evs.
               str_format env (fst (last (c_transf (column s')))) (c_alias (column s)) = Inr expr \<and>
               executeSQL env (cast_test_query expr (c_alias (column s)) (genSQL env (column s)))
                 = Inr x \<and>
               requests s' = requests s @ evs @
                 [ExecuteSQL (cast_test_query expr (c_alias (column s)) (genSQL env (column s)))])) \<and>
         (\<forall>evs expr e0.
            requests s' = requests s @ evs @
              [ExecuteSQL (cast_test_query expr (c_alias (column s)) (genSQL env (column s)))] \<and>
            executeSQL env (cast_test_query expr (c_alias (column s)) (genSQL env (column s)))
              = Inl e0 \<longrightarrow>
            r = Inl (Exn ConversionError
                       (str_of e0 @ ''\<newline>The vDataColumn '' @ c_alias (column s) @
                        '' can not be converted to '' @ declared_after env requested (column s))) \<and>
            column s' = column s \<and> history s' = history s)"
proof (cases "transformation_2 env (to_sql_dtype env requested) s")
  case (Pair r1 s1)
  note no_test = transformation_2_no_test [OF Pair]
  from transformation_2_frame [OF Pair]
  have col: "column s1 = column s" and his: "history s1 = history s" by simp_all
  show ?thesis
  proof (cases r1)
    case (Inl e1)
    with Pair have "transformation_2 env (to_sql_dtype env requested) s = (Inl e1, s1)" by simp
    from astype_dispatch_Inl [OF this] assms
    have "s' = s1" and "\<And>u. r \<noteq> Inr u" by auto
    with no_test show ?thesis by auto
  next
    case (Inr td)
    obtain t d where td: "td = (t, d)" by (cases td)
    from Pair Inr td
    have disp: "transformation_2 env (to_sql_dtype env requested) s = (Inr (t, d), s1)"
      by simp
    from transformation_2_dtype [OF disp]
    have d: "d = declared_after env requested (column s)"
      by (simp add: declared_after_def Let_def)
    from transformation_2_requests [OF Pair] obtain pre where
      pre: "requests s1 = requests s @ pre" by auto
    show ?thesis
    proof (cases "str_format env (clean_query env t) (c_alias (column s))")
      case (Inl e1)
      with col have "test_and_append env t d s1 = (Inl e1, s1)"
        by (simp add: test_and_append_cases)
      from astype_test_Inl [OF disp this] assms
      have "s' = s1" and "\<And>u. r \<noteq> Inr u" by auto
      with no_test show ?thesis by auto
    next
      case (Inr expr')
      let ?q = "cast_test_query expr' (c_alias (column s)) (genSQL env (column s))"
      show ?thesis
      proof (cases "executeSQL env ?q")
        case (Inl e1)
        with Inr col
        have "test_and_append env t d s1 = (Inl e1, s1\<lparr>requests := requests s1 @ [ExecuteSQL ?q]\<rparr>)"
          by (simp add: test_and_append_cases)
        from astype_test_Inl [OF disp this] assms col
        have r: "r = Inl (conversion_error e1 (c_alias (column s)) d)"
          and s': "s' = s1\<lparr>requests := requests s1 @ [ExecuteSQL ?q]\<rparr>" by auto
        from s' pre have req: "requests s' = requests s @ pre @ [ExecuteSQL ?q]" by simp
        from s' col his have same: "column s' = column s" "history s' = history s" by simp_all
        have "\<And>evs expr e0.
            requests s' = requests s @ evs @
              [ExecuteSQL (cast_test_query expr (c_alias (column s)) (genSQL env (column s)))] \<Longrightarrow>
            executeSQL env (cast_test_query expr (c_alias (column s)) (genSQL env (column s)))
              = Inl e0 \<Longrightarrow> e0 = e1"
          using req Inl by auto
        with r d same show ?thesis by (auto simp: conversion_error_def)
      next
        case (Inr x)
        let ?msg = "''[AsType]: The vDataColumn '' @ c_alias (column s1) @
                     '' was converted to '' @ d @ ''.''"
        let ?s2 = "s1\<lparr>column := (column s1)
                      \<lparr>c_transf := c_transf (column s1) @
                          [(clean_query env t, d, to_category env d)]\<rparr>,
                  requests := requests s1 @ [ExecuteSQL ?q]\<rparr>"
        note fmt = \<open>str_format env (clean_query env t) (c_alias (column s)) = Inr expr'\<close>
        have "\<exists>r2 s2. test_and_append env t d s1 = (r2, s2) \<and>
                requests s2 = requests s1 @ [ExecuteSQL ?q] \<and>
                (\<forall>u. r2 = Inr u \<longrightarrow> fst (last (c_transf (column s2))) = clean_query env t)"
          using Inr fmt col by (simp add: test_and_append_cases split: sum.splits)
        then obtain r2 s2 where
          app: "test_and_append env t d s1 = (r2, s2)" and
          req2: "requests s2 = requests s1 @ [ExecuteSQL ?q]" and
          lst2: "\<And>u. r2 = Inr u \<Longrightarrow> fst (last (c_transf (column s2))) = clean_query env t"
          by blast
        have s': "s' = s2" and rr: "\<And>u. r = Inr u \<Longrightarrow> r2 = Inr u"
        proof -
          show "s' = s2"
          proof (cases r2)
            case (Inl e2)
            with app have "test_and_append env t d s1 = (Inl e2, s2)" by simp
            from astype_test_Inl [OF disp this] assms show ?thesis by simp
          next
            case (Inr u2)
            with app have "test_and_append env t d s1 = (Inr u2, s2)" by simp
            from astype_test_Inr [OF disp this] assms show ?thesis by simp
          qed
          show "r2 = Inr u" if "r = Inr u" for u
          proof (cases r2)
            case (Inl e2)
            with app have "test_and_append env t d s1 = (Inl e2, s2)" by simp
            from astype_test_Inl [OF disp this] assms that show ?thesis by simp
          next
            case (Inr u2)
            then show ?thesis by simp
          qed
        qed
        from s' req2 pre have req: "requests s' = requests s @ pre @ [ExecuteSQL ?q]" by simp
        have one: "\<exists>expr x evs.
               str_format env (fst (last (c_transf (column s')))) (c_alias (column s)) = Inr expr \<and>
               executeSQL env (cast_test_query expr (c_alias (column s)) (genSQL env (column s)))
                 = Inr x \<and>
               requests s' = requests s @ evs @
                 [ExecuteSQL (cast_test_query expr (c_alias (column s)) (genSQL env (column s)))]"
          if "r = Inr u" for u
          using lst2 [OF rr [OF that]] s' fmt Inr req by auto
        have two: "\<And>evs expr e0.
            requests s' = requests s @ evs @
              [ExecuteSQL (cast_test_query expr (c_alias (column s)) (genSQL env (column s)))] \<Longrightarrow>
            executeSQL env (cast_test_query expr (c_alias (column s)) (genSQL env (column s)))
              = Inl e0 \<Longrightarrow> False"
          using req Inr by auto
        from one two show ?thesis by blast
      qed
    qed
  qed
qed

text \<open>The spec's failure scenario: \<open>price\<close> holds text that is not a number, the
  engine rejects the test query of the cast to \<open>int\<close>; the error names \<open>price\<close> and
  \<open>int\<close> after the engine's text, and the chain is unchanged.\<close>

theorem astype_test_query_witness:
  "fst price_cast =
     Inl (Exn ConversionError
            ''cannot evaluate the expression\<newline>The vDataColumn price can not be converted to int'') \<and>
   requests (snd price_cast) =
     [ExecuteSQL
        (''\<newline>                SELECT \<newline>                    /*+LABEL('vDataColumn.astype')*/ \<newline>                    price::int AS price \<newline>                FROM t \<newline>                WHERE price IS NOT NULL \<newline>                LIMIT 20'')] \<and>
   column (snd price_cast) = column price_column"
proof -
  let ?env = "scenario [11, 0, 0] rejecting"
  have a: "astype ?env ''int'' price_column = (fst price_cast, snd price_cast)"
    by (simp add: price_cast_def)
  have q: "requests (snd price_cast) = requests price_column @ [] @
      [ExecuteSQL (cast_test_query ''price::int'' (c_alias (column price_column))
         (genSQL ?env (column price_column)))]"
    by (simp add: price_cast_def astype_defs scenario_defs python_defs price_column_def
          rejecting_def Let_def)
  have e: "executeSQL ?env (cast_test_query ''price::int'' (c_alias (column price_column))
         (genSQL ?env (column price_column))) = Inl (Exn EngineError ''cannot evaluate the expression'')"
    by (simp add: scenario_def rejecting_def)
  have d: "declared_after ?env ''int'' (column price_column) = ''int''"
    by (simp add: declared_after_def scenario_defs python_defs)
  from astype_test_query [OF a] q e d
  have "fst price_cast =
     Inl (Exn ConversionError
            (''cannot evaluate the expression'' @ ''\<newline>The vDataColumn '' @
             c_alias (column price_column) @ '' can not be converted to '' @ ''int'')) \<and>
     column (snd price_cast) = column price_column"
    by (metis exn.sel(2))
  with q show ?thesis
    by (simp add: price_column_def cast_test_query_def scenario_def)
qed

text \<open>C4 as the spec states it fails for \<open>json\<close>: when the engine rejects the test
  query, the error text names \<open>varchar\<close>; the requested type \<open>json\<close> does not occur
  in it.\<close>

theorem astype_error_text_counterexample:
  "fst rejected_json_cast =
     Inl (Exn ConversionError
            ''cannot evaluate the expression\<newline>The vDataColumn age can not be converted to varchar'') \<and>
   to_sql_dtype (scenario [11, 0, 0] rejecting) ''json'' = ''json'' \<and>
   py_count (str_of (projl (fst rejected_json_cast))) ''json'' = 0 \<and>
   requests (snd rejected_json_cast) =
     [ExecuteSQL (cast_test_query ''MAPTOSTRING(age USING PARAMETERS canonical_json=true)''
        ''age'' ''t'')]"
  by (simp add: rejected_json_cast_def astype_defs scenario_defs python_defs vmap_column_def
        rejecting_def Let_def)

section \<open>C9: the requests of one cast\<close>

lemma json_or_cast_when:
  assumes "json_or_cast env dtype s = (r, s1)"
  shows "s1 = s \<or>
         s1 = s\<lparr>requests := requests s @ [VersionCheck [10, 1, 0]]\<rparr> \<and> dtype = ''json'' \<and>
         (\<exists>g. category (column s) = Inr g \<and> g \<noteq> ''vmap'')"
  using assms
  by (auto simp: json_or_cast_def call_vertica_version_def split: sum.splits if_splits)

lemma char_or_later_when:
  assumes "char_or_later env dtype s = (r, s1)"
  shows "s1 = s \<or>
         s1 = s\<lparr>requests := requests s @ [VersionCheck [10, 1, 0]]\<rparr> \<and> dtype = ''json'' \<and>
         (\<exists>g. category (column s) = Inr g \<and> g \<noteq> ''vmap'')"
  using assms
  by (auto simp: char_or_later_def split: sum.splits if_splits dest: json_or_cast_when)

lemma transformation_2_requests_when:
  assumes "transformation_2 env dtype s = (r, s1)"
  shows "\<exists>vs ps. requests s1 = requests s @ vs @ ps \<and>
           (vs = [] \<or>
            vs = [VersionCheck [10, 0, 0]] \<and> dtype = ''array'' \<and>
              category (column s) = Inr ''text'' \<or>
            vs = [VersionCheck [10, 1, 0]] \<and> dtype = ''json'' \<and>
              (\<exists>g. category (column s) = Inr g \<and> g \<noteq> ''vmap'') \<and> ps = []) \<and>
           (ps = [] \<or>
            ps = [ExecuteSQL (biggest_str_query (c_alias (column s)) (genSQL env (column s)))] \<and>
            (dtype = ''array'' \<or> startswith dtype ''vmap'') \<and>
            category (column s) = Inr ''text'')"
proof (cases "(dtype = ''array'' \<or> startswith dtype ''vmap'') \<and> category (column s) = Inr ''text''")
  case True
  with assms have "extract_from_text env dtype s = (r, s1)"
    by (simp add: transformation_2_def)
  from extract_from_text_frame [OF this] obtain evs where
    s1: "s1 = s\<lparr>requests := requests s @ evs\<rparr>" and
    evs: "evs = [VersionCheck [10, 0, 0]] \<and> dtype = ''array'' \<or>
        evs = [VersionCheck [10, 0, 0],
               ExecuteSQL (biggest_str_query (c_alias (column s)) (genSQL env (column s)))] \<and>
          dtype = ''array'' \<or>
        evs = [ExecuteSQL (biggest_str_query (c_alias (column s)) (genSQL env (column s)))] \<and>
          dtype \<noteq> ''array''"
    by blast
  let ?p = "ExecuteSQL (biggest_str_query (c_alias (column s)) (genSQL env (column s)))"
  from evs consider
    (a) "evs = [VersionCheck [10, 0, 0]] @ []" "dtype = ''array''" |
    (b) "evs = [VersionCheck [10, 0, 0]] @ [?p]" "dtype = ''array''" |
    (c) "evs = [] @ [?p]"
    by auto
  then show ?thesis
  proof cases
    case a
    with s1 have "requests s1 = requests s @ [VersionCheck [10, 0, 0]] @ []" by simp
    with a True show ?thesis by blast
  next
    case b
    with s1 have "requests s1 = requests s @ [VersionCheck [10, 0, 0]] @ [?p]" by simp
    with b True show ?thesis by blast
  next
    case c
    with s1 have "requests s1 = requests s @ [] @ [?p]" by simp
    with True show ?thesis by blast
  qed
next
  case False
  with assms have "char_or_later env dtype s = (r, s1) \<or> (\<exists>e. r = Inl e \<and> s1 = s)"
    by (auto simp: transformation_2_def split: sum.splits if_splits)
  then have "s1 = s \<or>
      s1 = s\<lparr>requests := requests s @ [VersionCheck [10, 1, 0]]\<rparr> \<and> dtype = ''json'' \<and>
      (\<exists>g. category (column s) = Inr g \<and> g \<noteq> ''vmap'')"
    using char_or_later_when by blast
  then show ?thesis
  proof
    assume "s1 = s"
    then have "requests s1 = requests s @ [] @ []" by simp
    then show ?thesis by blast
  next
    assume "s1 = s\<lparr>requests := requests s @ [VersionCheck [10, 1, 0]]\<rparr> \<and> dtype = ''json'' \<and>
      (\<exists>g. category (column s) = Inr g \<and> g \<noteq> ''vmap'')"
    then have "requests s1 = requests s @ [VersionCheck [10, 1, 0]] @ []" "dtype = ''json''"
      "\<exists>g. category (column s) = Inr g \<and> g \<noteq> ''vmap''"
      by simp_all
    then show ?thesis by blast
  qed
qed

lemma test_and_append_requests:
  assumes "test_and_append env t d s1 = (r, s2)"
  shows "\<exists>ts. requests s2 = requests s1 @ ts \<and>
           (ts = [] \<and> (\<exists>e. r = Inl e) \<or>
            (\<exists>expr. ts = [ExecuteSQL (cast_test_query expr (c_alias (column s1))
                                          (genSQL env (column s1)))]))"
  using assms by (auto simp: test_and_append_cases split: sum.splits)

text \<open>The requests of the body, in their order and with the conditions under which each
  is made.\<close>

lemma astype_body_requests:
  assumes "astype env requested s = (r, s')"
  shows "\<exists>vs ps ts.
           requests s' = requests s @ vs @ ps @ ts \<and>
           (vs = [] \<or>
            vs = [VersionCheck [10, 0, 0]] \<and> to_sql_dtype env requested = ''array'' \<and>
              category (column s) = Inr ''text'' \<or>
            vs = [VersionCheck [10, 1, 0]] \<and> to_sql_dtype env requested = ''json'' \<and>
              (\<exists>g. category (column s) = Inr g \<and> g \<noteq> ''vmap'') \<and> ps = []) \<and>
           (ps = [] \<or>
            ps = [ExecuteSQL (biggest_str_query (c_alias (column s)) (genSQL env (column s)))] \<and>
            (to_sql_dtype env requested = ''array'' \<or>
             startswith (to_sql_dtype env requested) ''vmap'') \<and>
            category (column s) = Inr ''text'') \<and>
           (ts = [] \<and> (\<exists>e. r = Inl e) \<or>
            (\<exists>expr. ts = [ExecuteSQL (cast_test_query expr (c_alias (column s))
                                          (genSQL env (column s)))]))"
proof (cases "transformation_2 env (to_sql_dtype env requested) s")
  case (Pair r1 s1)
  from transformation_2_frame [OF Pair] have col: "column s1 = column s" by simp
  from transformation_2_requests_when [OF Pair] obtain vs ps where
    req1: "requests s1 = requests s @ vs @ ps" and
    vs: "vs = [] \<or>
         vs = [VersionCheck [10, 0, 0]] \<and> to_sql_dtype env requested = ''array'' \<and>
           category (column s) = Inr ''text'' \<or>
         vs = [VersionCheck [10, 1, 0]] \<and> to_sql_dtype env requested = ''json'' \<and>
           (\<exists>g. category (column s) = Inr g \<and> g \<noteq> ''vmap'') \<and> ps = []" and
    ps: "ps = [] \<or>
         ps = [ExecuteSQL (biggest_str_query (c_alias (column s)) (genSQL env (column s)))] \<and>
         (to_sql_dtype env requested = ''array'' \<or>
          startswith (to_sql_dtype env requested) ''vmap'') \<and>
         category (column s) = Inr ''text''"
    by blast
  have "\<exists>ts. requests s' = requests s1 @ ts \<and>
           (ts = [] \<and> (\<exists>e. r = Inl e) \<or>
            (\<exists>expr. ts = [ExecuteSQL (cast_test_query expr (c_alias (column s))
                                          (genSQL env (column s)))]))"
  proof (cases r1)
    case (Inl e1)
    with Pair have "transformation_2 env (to_sql_dtype env requested) s = (Inl e1, s1)" by simp
    from astype_dispatch_Inl [OF this] assms show ?thesis by auto
  next
    case (Inr td)
    obtain t d where td: "td = (t, d)" by (cases td)
    from Pair Inr td
    have disp: "transformation_2 env (to_sql_dtype env requested) s = (Inr (t, d), s1)"
      by simp
    obtain r2 s2 where app: "test_and_append env t d s1 = (r2, s2)"
      by (cases "test_and_append env t d s1")
    have "s' = s2 \<and> ((\<exists>e. r2 = Inl e) \<longrightarrow> (\<exists>e. r = Inl e))"
    proof (cases r2)
      case (Inl e2)
      with app have "test_and_append env t d s1 = (Inl e2, s2)" by simp
      from astype_test_Inl [OF disp this] assms show ?thesis by auto
    next
      case (Inr u)
      with app have "test_and_append env t d s1 = (Inr u, s2)" by simp
      from astype_test_Inr [OF disp this] assms Inr show ?thesis by auto
    qed
    with test_and_append_requests [OF app] col show ?thesis by auto
  qed
  then obtain ts where
    req2: "requests s' = requests s1 @ ts" and
    ts: "ts = [] \<and> (\<exists>e. r = Inl e) \<or>
         (\<exists>expr. ts = [ExecuteSQL (cast_test_query expr (c_alias (column s))
                                       (genSQL env (column s)))])"
    by blast
  from req1 req2 have req: "requests s' = requests s @ vs @ ps @ ts" by simp
  from req vs ps ts show ?thesis by blast
qed

text \<open>
  C9, as the code has it.  The requests one call of the decorated \<open>astype\<close> makes are,
  in this order: what the decorator \<open>save_verticapy_logs\<close> sends before it calls the
  body (\<open>ls\<close>); at most one version check (\<open>vs\<close>), for 10.0.0 only when the request
  is \<open>array\<close> and the column is \<open>text\<close>, for 10.1.0 only when the request is
  \<open>json\<close> and the column is not a \<open>vmap\<close>, and then no format-inference probe
  follows; at most one format-inference probe (\<open>ps\<close>), only when the request is
  \<open>array\<close> or starts with \<open>vmap\<close> and the column is \<open>text\<close>; and at most one
  validation probe (\<open>ts\<close>), which is missing only when the cast fails.  So the body
  sends at most two queries through \<open>_executeSQL\<close>, never a third, and calls the
  version check at most once; the requests of the decorator come on top of them.
\<close>

theorem astype_requests:
  assumes "decorated_astype env requested s = (r, s')"
  shows "\<exists>ls vs ps ts.
           requests s' = requests s @ ls @ vs @ ps @ ts \<and>
           ls = snd (save_verticapy_logs env ''astype'' requested) \<and>
           (vs = [] \<or>
            vs = [VersionCheck [10, 0, 0]] \<and> to_sql_dtype env requested = ''array'' \<and>
              category (column s) = Inr ''text'' \<or>
            vs = [VersionCheck [10, 1, 0]] \<and> to_sql_dtype env requested = ''json'' \<and>
              (\<exists>g. category (column s) = Inr g \<and> g \<noteq> ''vmap'') \<and> ps = []) \<and>
           (ps = [] \<or>
            ps = [ExecuteSQL (biggest_str_query (c_alias (column s)) (genSQL env (column s)))] \<and>
            (to_sql_dtype env requested = ''array'' \<or>
             startswith (to_sql_dtype env requested) ''vmap'') \<and>
            category (column s) = Inr ''text'') \<and>
           (ts = [] \<and> (\<exists>e. r = Inl e) \<or>
            (\<exists>expr. ts = [ExecuteSQL (cast_test_query expr (c_alias (column s))
                                          (genSQL env (column s)))])) \<and>
           length (filter is_probe (ps @ ts)) \<le> 2 \<and>
           length (filter is_probe vs) = 0 \<and> length vs \<le> 1"
proof (cases "save_verticapy_logs env ''astype'' requested")
  case (Pair r0 ls)
  let ?s0 = "s\<lparr>requests := requests s @ ls\<rparr>"
  show ?thesis
  proof (cases r0)
    case (Inl e0)
    with Pair assms have "r = Inl e0" and "s' = ?s0"
      by (simp_all add: decorated_astype_def)
    then have "requests s' = requests s @ ls @ [] @ [] @ []" and "\<exists>e. r = Inl e"
      by simp_all
    with Pair show ?thesis by fastforce
  next
    case (Inr u0)
    with Pair assms have "astype env requested ?s0 = (r, s')"
      by (simp add: decorated_astype_def)
    from astype_body_requests [OF this]
    have "\<exists>vs ps ts.
           requests s' = requests s @ ls @ vs @ ps @ ts \<and>
           (vs = [] \<or>
            vs = [VersionCheck [10, 0, 0]] \<and> to_sql_dtype env requested = ''array'' \<and>
              category (column s) = Inr ''text'' \<or>
            vs = [VersionCheck [10, 1, 0]] \<and> to_sql_dtype env requested = ''json'' \<and>
              (\<exists>g. category (column s) = Inr g \<and> g \<noteq> ''vmap'') \<and> ps = []) \<and>
           (ps = [] \<or>
            ps = [ExecuteSQL (biggest_str_query (c_alias (column s)) (genSQL env (column s)))] \<and>
            (to_sql_dtype env requested = ''array'' \<or>
             startswith (to_sql_dtype env requested) ''vmap'') \<and>
            category (column s) = Inr ''text'') \<and>
           (ts = [] \<and> (\<exists>e. r = Inl e) \<or>
            (\<exists>expr. ts = [ExecuteSQL (cast_test_query expr (c_alias (column s))
                                          (genSQL env (column s)))]))"
      by simp
    then obtain vs ps ts where
      req: "requests s' = requests s @ ls @ vs @ ps @ ts" and
      vs: "vs = [] \<or>
           vs = [VersionCheck [10, 0, 0]] \<and> to_sql_dtype env requested = ''array'' \<and>
             category (column s) = Inr ''text'' \<or>
           vs = [VersionCheck [10, 1, 0]] \<and> to_sql_dtype env requested = ''json'' \<and>
             (\<exists>g. category (column s) = Inr g \<and> g \<noteq> ''vmap'') \<and> ps = []" and
      ps: "ps = [] \<or>
           ps = [ExecuteSQL (biggest_str_query (c_alias (column s)) (genSQL env (column s)))] \<and>
           (to_sql_dtype env requested = ''array'' \<or>
            startswith (to_sql_dtype env requested) ''vmap'') \<and>
           category (column s) = Inr ''text''" and
      ts: "ts = [] \<and> (\<exists>e. r = Inl e) \<or>
           (\<exists>expr. ts = [ExecuteSQL (cast_test_query expr (c_alias (column s))
                                         (genSQL env (column s)))])"
      by blast
    from ps ts have n: "length (filter is_probe (ps @ ts)) \<le> 2" by auto
    from vs have m: "length (filter is_probe vs) = 0 \<and> length vs \<le> 1" by auto
    from Pair have l: "ls = snd (save_verticapy_logs env ''astype'' requested)" by simp
    from req l vs ps ts n m show ?thesis by blast
  qed
qed

text \<open>The cast of the \<open>text\<close> column \<open>age\<close> to \<open>array\<close> with a decorator that
  sends one statement: accepted after that statement, a version check and two probes.\<close>

lemma array_cast_requests:
  "fst array_cast = Inr () \<and>
   requests (snd array_cast) =
     [VersionCheck [10, 0, 0],
      ExecuteSQL (biggest_str_query ''age'' ''t''),
      ExecuteSQL (cast_test_query
        (projr (format_plain (array_transformation ''1,2,3'' '','') ''age'')) ''age'' ''t'')]"
  by (simp add: array_cast_def astype_defs scenario_defs python_defs text_column_def Let_def
        array_transformation_def collection_open_def collection_close_def bracketed_def
        collection_null_element_def)

lemma logged_array_cast_requests:
  "fst logged_array_cast = Inr () \<and>
   requests (snd logged_array_cast) =
     [ExecuteSQL ''SELECT /*+LABEL(verticapy_json)*/ astype'',
      VersionCheck [10, 0, 0],
      ExecuteSQL (biggest_str_query ''age'' ''t''),
      ExecuteSQL (cast_test_query
        (projr (format_plain (array_transformation ''1,2,3'' '','') ''age'')) ''age'' ''t'')]"
  by (simp add: logged_array_cast_def decorated_astype_def logging_scenario_def logging_def
        astype_defs scenario_defs python_defs text_column_def Let_def
        array_transformation_def collection_open_def collection_close_def bracketed_def
        collection_null_element_def)

theorem astype_requests_witness:
  "fst logged_array_cast = Inr () \<and>
   requests (snd logged_array_cast) =
     [ExecuteSQL ''SELECT /*+LABEL(verticapy_json)*/ astype'',
      VersionCheck [10, 0, 0],
      ExecuteSQL (biggest_str_query ''age'' ''t''),
      ExecuteSQL (cast_test_query
        (projr (format_plain (array_transformation ''1,2,3'' '','') ''age'')) ''age'' ''t'')] \<and>
   snd (save_verticapy_logs (logging_scenario (\<lambda>q. Inr (Some ''1,2,3''))) ''astype'' ''array'') =
     [ExecuteSQL ''SELECT /*+LABEL(verticapy_json)*/ astype''] \<and>
   length (filter is_probe (drop 1 (requests (snd logged_array_cast)))) = 2"
proof -
  let ?env = "logging_scenario (\<lambda>q. Inr (Some ''1,2,3''))"
  have a: "decorated_astype ?env ''array'' text_column
             = (fst logged_array_cast, snd logged_array_cast)"
    by (simp add: logged_array_cast_def)
  note q = logged_array_cast_requests
  have l: "snd (save_verticapy_logs ?env ''astype'' ''array'') =
             [ExecuteSQL ''SELECT /*+LABEL(verticapy_json)*/ astype'']"
    by (simp add: logging_scenario_def logging_def)
  from astype_requests [OF a] obtain ls vs ps ts where
    r: "requests (snd logged_array_cast) = requests text_column @ ls @ vs @ ps @ ts" and
    ls: "ls = snd (save_verticapy_logs ?env ''astype'' ''array'')" and
    n: "length (filter is_probe (ps @ ts)) \<le> 2" and
    m: "length (filter is_probe vs) = 0"
    by blast
  from r ls l q have "drop 1 (requests (snd logged_array_cast)) = vs @ ps @ ts"
    by (simp add: text_column_def)
  with n m have "length (filter is_probe (drop 1 (requests (snd logged_array_cast)))) \<le> 2"
    by simp
  with q l show ?thesis by simp
qed

text \<open>C9 as the spec states it fails: this cast makes four requests to the engine, three
  of them statements, and the body alone, under a decorator that sends nothing, makes
  three once the version check counts as a round trip, as the spec's list of engine
  queries has it.\<close>

theorem astype_round_trips_counterexample:
  "fst logged_array_cast = Inr () \<and>
   requests (snd logged_array_cast) =
     [ExecuteSQL ''SELECT /*+LABEL(verticapy_json)*/ astype'',
      VersionCheck [10, 0, 0],
      ExecuteSQL (biggest_str_query ''age'' ''t''),
      ExecuteSQL (cast_test_query
        (projr (format_plain (array_transformation ''1,2,3'' '','') ''age'')) ''age'' ''t'')] \<and>
   round_trips (requests (snd logged_array_cast)) = 4 \<and>
   length (filter is_probe (requests (snd logged_array_cast))) = 3 \<and>
   fst array_cast = Inr () \<and>
   round_trips (requests (snd array_cast)) = 3"
  using array_cast_requests logged_array_cast_requests by (simp add: round_trips_def)

section \<open>C7: a \<open>vmap\<close> column cast to the \<open>varchar\<close>/\<open>char\<close> family\<close>

lemma four_of_seven: "take 7 dtype = ''varchar'' \<Longrightarrow> take 4 dtype = ''varc''"
proof -
  assume a: "take 7 dtype = ''varchar''"
  have "take 4 dtype = take 4 (take 7 dtype)" by (simp add: min_def)
  with a show ?thesis by simp
qed

lemma char_family_not_extract:
  assumes "take 7 dtype = ''varchar'' \<or> take 4 dtype = ''char''"
  shows "dtype \<noteq> ''array''" and "\<not> startswith dtype ''vmap''"
proof -
  from assms four_of_seven [of dtype]
  have f: "take 4 dtype = ''varc'' \<or> take 4 dtype = ''char''" by blast
  show "dtype \<noteq> ''array''"
  proof
    assume "dtype = ''array''"
    with f show False by simp
  qed
  show "\<not> startswith dtype ''vmap''"
  proof
    assume "startswith dtype ''vmap''"
    then have "take 4 dtype = ''vmap''" by (simp add: startswith_def eval_nat_numeral)
    with f show False by simp
  qed
qed

lemma transformation_2_char_family:
  assumes "category (column s) = Inr ''vmap''"
    and "take 7 dtype = ''varchar'' \<or> take 4 dtype = ''char''"
  shows "transformation_2 env dtype s = (Inr (maptostring_cast dtype, dtype), s)"
  using assms char_family_not_extract [OF assms(2)]
  by (simp add: transformation_2_def char_or_later_def)

text \<open>
  C7.  On a \<open>vmap\<close> column, an accepted request whose normal form starts with
  \<open>varchar\<close> or \<open>char\<close> appends the cleaned expression
  \<open>MAPTOSTRING({} USING PARAMETERS canonical_json=false)::dtype\<close>, declared as the
  normalised request \<open>dtype\<close>, with the category the classification table gives
  \<open>dtype\<close>: \<open>text\<close> whenever the table classifies the character type so.
\<close>

theorem astype_vmap_to_char:
  assumes "category (column s) = Inr ''vmap''"
    and "take 7 (to_sql_dtype env requested) = ''varchar'' \<or>
         take 4 (to_sql_dtype env requested) = ''char''"
    and "astype env requested s = (Inr u, s')"
  shows "last (c_transf (column s')) =
           (clean_query env
              (''MAPTOSTRING({} \<newline>                                                   USING PARAMETERS \<newline>                                                   canonical_json=false)::'' @
               to_sql_dtype env requested),
            to_sql_dtype env requested,
            to_category env (to_sql_dtype env requested)) \<and>
         butlast (c_transf (column s')) = c_transf (column s) \<and>
         ctype (column s') = Inr (lower (to_sql_dtype env requested)) \<and>
         category (column s') = Inr (to_category env (to_sql_dtype env requested)) \<and>
         (to_category env (to_sql_dtype env requested) = ''text'' \<longrightarrow>
            category (column s') = Inr ''text'')"
proof -
  let ?d = "to_sql_dtype env requested"
  from astype_Inr [OF assms(3)] obtain t d s1 where
    disp: "transformation_2 env ?d s = (Inr (t, d), s1)" and
    app: "test_and_append env t d s1 = (Inr u, s')"
    by blast
  have e: "transformation_2 env ?d s = (Inr (maptostring_cast ?d, ?d), s)"
    by (rule transformation_2_char_family [OF assms(1,2)])
  have t: "t = maptostring_cast ?d" and d: "d = ?d" and s1: "s1 = s"
    using disp e by (metis prod.inject sum.inject(2))+
  from test_and_append_Inr(2) [OF app]
  have ct: "c_transf (column s') =
          c_transf (column s) @ [(clean_query env (maptostring_cast ?d), ?d, to_category env ?d)]"
    unfolding t d s1 .
  note g = category_snoc [OF ct] and c = ctype_snoc [OF ct]
  from ct have l: "last (c_transf (column s')) =
      (clean_query env (maptostring_cast ?d), ?d, to_category env ?d)"
    and b: "butlast (c_transf (column s')) = c_transf (column s)"
    by simp_all
  from l b g c show ?thesis
    by (simp add: maptostring_cast_def)
qed

text \<open>The scenario: after \<open>age\<close> is cast to \<open>vmap\<close> (the separator inferred is the
  vertical bar), the cast to \<open>varchar\<close> is accepted; the category is \<open>text\<close> and the
  declared type \<open>varchar\<close>.\<close>

lemma vmap_cast_result:
  "fst vmap_cast = Inr () \<and>
   column (snd vmap_cast) =
     \<lparr>c_alias = ''age'',
      c_transf = [(''{}'', ''varchar'', ''text''),
                  (vmap_transformation ''vmap'' ''10|20|30'' ''|'', ''vmap'', ''vmap'')]\<rparr>"
  by (simp add: vmap_cast_def astype_defs scenario_defs python_defs text_column_def Let_def
        vmap_transformation_def header_names_def)

theorem astype_vmap_to_char_witness:
  "category (column (snd vmap_cast)) = Inr ''vmap'' \<and>
   fst varchar_cast = Inr () \<and>
   category (column (snd varchar_cast)) = Inr ''text'' \<and>
   ctype (column (snd varchar_cast)) = Inr ''varchar'' \<and>
   last (c_transf (column (snd varchar_cast))) =
     (''MAPTOSTRING({} \<newline>                                                   USING PARAMETERS \<newline>                                                   canonical_json=false)::varchar'',
      ''varchar'', ''text'')"
proof -
  let ?env = "scenario [11, 0, 0] (\<lambda>q. Inr (Some ''10|20|30''))"
  have c: "category (column (snd vmap_cast)) = Inr ''vmap''"
    using vmap_cast_result by (simp add: category_def)
  have al: "c_alias (column (snd vmap_cast)) = ''age''"
    using vmap_cast_result by simp
  have n: "to_sql_dtype ?env ''varchar'' = ''varchar''"
    by (simp add: scenario_defs python_defs)
  then have f: "take 7 (to_sql_dtype ?env ''varchar'') = ''varchar'' \<or>
           take 4 (to_sql_dtype ?env ''varchar'') = ''char''"
    by simp
  have disp: "transformation_2 ?env (to_sql_dtype ?env ''varchar'') (snd vmap_cast) =
      (Inr (maptostring_cast ''varchar'', ''varchar''), snd vmap_cast)"
    unfolding n by (rule transformation_2_char_family [OF c]) simp
  have "fst (test_and_append ?env (maptostring_cast ''varchar'') ''varchar'' (snd vmap_cast))
          = Inr ()"
    by (simp add: test_and_append_cases al scenario_defs maptostring_cast_def)
  then have app: "test_and_append ?env (maptostring_cast ''varchar'') ''varchar'' (snd vmap_cast)
      = (Inr (), snd (test_and_append ?env (maptostring_cast ''varchar'') ''varchar''
                        (snd vmap_cast)))"
    by (simp add: prod_eq_iff)
  have r: "fst varchar_cast = Inr ()"
    unfolding varchar_cast_def astype_test_Inr [OF disp app] by simp
  then have a: "astype ?env ''varchar'' (snd vmap_cast) = (Inr (), snd varchar_cast)"
    by (simp add: varchar_cast_def prod_eq_iff)
  have g: "to_category ?env ''varchar'' = ''text''" "clean_query ?env = (\<lambda>q. q)"
    by (simp_all add: scenario_defs python_defs)
  have l: "lower ''varchar'' = ''varchar''"
    by (simp add: python_defs)
  from astype_vmap_to_char [OF c f a] c r n g l show ?thesis
    by simp
qed

section \<open>The templates of a \<open>text\<close> column\<close>

lemma transformation_2_text:
  "category (column s) = Inr ''text'' \<Longrightarrow> dtype = ''array'' \<or> startswith dtype ''vmap'' \<Longrightarrow>
     transformation_2 env dtype s = extract_from_text env dtype s"
  by (simp add: transformation_2_def)

lemma probe_and_extract_Some:
  assumes "executeSQL env (biggest_str_query (c_alias (column s)) (genSQL env (column s)))
             = Inr (Some raw)"
  shows "probe_and_extract env dtype s =
           (Inr (if startswith dtype ''vmap''
                 then (vmap_transformation dtype (strip raw) (guess_sep env (strip raw)), ''vmap'')
                 else (array_transformation (strip raw) (guess_sep env (strip raw)), dtype)),
            s\<lparr>requests := requests s @
               [ExecuteSQL (biggest_str_query (c_alias (column s)) (genSQL env (column s)))]\<rparr>)"
  using assms by (simp add: probe_and_extract_def call_executeSQL_def Let_def)


lemma array_template:
  assumes "category (column s) = Inr ''text''"
    and "vertica_version env [10, 0, 0] = Inr v"
    and "executeSQL env (biggest_str_query (c_alias (column s)) (genSQL env (column s)))
           = Inr (Some raw)"
  shows "transformation_2 env ''array'' s =
           (Inr (array_transformation (strip raw) (guess_sep env (strip raw)), ''array''),
            s\<lparr>requests := requests s @
               [VersionCheck [10, 0, 0],
                ExecuteSQL (biggest_str_query (c_alias (column s)) (genSQL env (column s)))]\<rparr>)"
proof -
  let ?s1 = "s\<lparr>requests := requests s @ [VersionCheck [10, 0, 0]]\<rparr>"
  have "executeSQL env (biggest_str_query (c_alias (column ?s1)) (genSQL env (column ?s1)))
          = Inr (Some raw)"
    using assms(3) by simp
  from probe_and_extract_Some [OF this, of "''array''"]
  have "probe_and_extract env ''array'' ?s1 =
          (Inr (array_transformation (strip raw) (guess_sep env (strip raw)), ''array''),
            s\<lparr>requests := requests s @
               [VersionCheck [10, 0, 0],
                ExecuteSQL (biggest_str_query (c_alias (column s)) (genSQL env (column s)))]\<rparr>)"
    by (simp add: startswith_vmap)
  with assms(1,2) show ?thesis
    by (simp add: transformation_2_text extract_from_text_def call_vertica_version_def)
qed

section \<open>C6: the brackets of an \<open>array\<close>\<close>

text \<open>
  The expression the ladder builds.  A \<open>text\<close> column is cast to \<open>array\<close>, the
  version gate passes and the probe returns \<open>raw\<close>; \<open>sample\<close> is \<open>raw\<close>
  stripped.  The expression carries \<open>, collection_open='c'\<close> and \<open>, collection_close='d'\<close>, with
  \<open>c\<close> and \<open>d\<close> the first and last character of the sample, exactly when the sample
  is longer than 2 and these are \<open>(\<close> and \<open>)\<close> or \<open>{\<close> and \<open>}\<close>; otherwise both
  places are empty.  Nothing but the sample and the separator inferred from it enters
  the expression, and it is this expression, cleaned, that a cast appends if it is
  accepted.
\<close>

lemma array_brackets_template:
  assumes "category (column s) = Inr ''text''"
    and "to_sql_dtype env requested = ''array''"
    and "vertica_version env [10, 0, 0] = Inr v"
    and "executeSQL env (biggest_str_query (c_alias (column s)) (genSQL env (column s)))
           = Inr (Some raw)"
    and "sample = strip raw"
    and "template =
           ''\<newline>                        STRING_TO_ARRAY({} \<newline>                                        USING PARAMETERS \<newline>                                        collection_delimiter='' @
           sq @ guess_sep env sample @ sq @
           ''\<newline>                                        '' @
           (if 2 < length sample \<and>
               (hd sample = CHR ''('' \<and> last sample = CHR '')'' \<or>
                hd sample = CHR ''{'' \<and> last sample = CHR ''}'')
            then '', collection_open='' @ sq @ [hd sample] @ sq else []) @
           ''\<newline>                                        '' @
           (if 2 < length sample \<and>
               (hd sample = CHR ''('' \<and> last sample = CHR '')'' \<or>
                hd sample = CHR ''{'' \<and> last sample = CHR ''}'')
            then '', collection_close='' @ sq @ [last sample] @ sq else []) @
           ''\<newline>                                        '' @
           collection_null_element sample (guess_sep env sample) @ '')''"
  shows "fst (transformation_2 env (to_sql_dtype env requested) s) = Inr (template, ''array'') \<and>
         (\<forall>u s'. astype env requested s = (Inr u, s') \<longrightarrow>
            last (c_transf (column s')) =
              (clean_query env template, ''array'', to_category env ''array''))"
proof -
  have t: "array_transformation sample (guess_sep env sample) = template"
    unfolding assms(6)
    by (simp add: array_transformation_def collection_open_def collection_close_def
          bracketed_def)
  note disp = array_template [OF assms(1,3,4), folded assms(5), unfolded t]
  have one: "fst (transformation_2 env (to_sql_dtype env requested) s) = Inr (template, ''array'')"
    unfolding assms(2) disp by simp
  have two: "last (c_transf (column s')) =
              (clean_query env template, ''array'', to_category env ''array'')"
    if a: "astype env requested s = (Inr u, s')" for u s'
  proof -
    from astype_Inr [OF a] obtain t d s1 where
      d1: "transformation_2 env (to_sql_dtype env requested) s = (Inr (t, d), s1)" and
      app: "test_and_append env t d s1 = (Inr u, s')"
      by blast
    from d1 disp have "t = template" "d = ''array''"
      unfolding assms(2) by (metis prod.inject sum.inject(2))+
    with test_and_append_Inr(2) [OF app] show ?thesis by simp
  qed
  from one two show ?thesis by blast
qed

text \<open>The samples of the spec, as far as the ladder: \<open>{1,2,3}\<close> gives
  \<open>collection_open='{'\<close> and \<open>collection_close='}'\<close>, \<open>1,2,3\<close> gives no bracket
  parameters.\<close>

lemma array_brackets_samples:
  "fst (transformation_2 (scenario [11, 0, 0] (\<lambda>q. Inr (Some ''{1,2,3}''))) ''array'' text_column)
     = Inr (''\<newline>                        STRING_TO_ARRAY({} \<newline>                                        USING PARAMETERS \<newline>                                        collection_delimiter=','\<newline>                                        , collection_open='{'\<newline>                                        , collection_close='}'\<newline>                                        )'',
            ''array'') \<and>
   fst (transformation_2 (scenario [11, 0, 0] (\<lambda>q. Inr (Some ''1,2,3''))) ''array'' text_column)
     = Inr (''\<newline>                        STRING_TO_ARRAY({} \<newline>                                        USING PARAMETERS \<newline>                                        collection_delimiter=','\<newline>                                        \<newline>                                        \<newline>                                        )'',
            ''array'')"
proof -
  have c: "category (column text_column) = Inr ''text''"
    by (simp add: category_def text_column_def)
  have n: "to_sql_dtype (scenario [11, 0, 0] answers) ''array'' = ''array''" for answers
    by (simp add: scenario_defs python_defs)
  have v: "vertica_version (scenario [11, 0, 0] answers) [10, 0, 0] = Inr [11, 0, 0]" for answers
    by (simp add: scenario_defs)
  have e: "executeSQL (scenario [11, 0, 0] (\<lambda>q. Inr (Some raw)))
             (biggest_str_query (c_alias (column text_column))
                (genSQL (scenario [11, 0, 0] (\<lambda>q. Inr (Some raw))) (column text_column)))
           = Inr (Some raw)" for raw
    by (simp add: scenario_def)
  have s1: "''{1,2,3}'' = strip ''{1,2,3}''" and s2: "''1,2,3'' = strip ''1,2,3''"
    by (simp_all add: python_defs)
  have g1: "guess_sep (scenario [11, 0, 0] answers) ''{1,2,3}'' = '',''"
    and g2: "guess_sep (scenario [11, 0, 0] answers) ''1,2,3'' = '',''" for answers
    by (simp_all add: scenario_defs python_defs)
  have z1: "collection_null_element ''{1,2,3}'' '','' = []"
    and z2: "collection_null_element ''1,2,3'' '','' = []"
    by (simp_all add: collection_null_element_def python_defs)
  from array_brackets_template [OF c n v e s1 refl, THEN conjunct1]
       array_brackets_template [OF c n v e s2 refl, THEN conjunct1]
  show ?thesis
    unfolding n by (simp add: g1 g2 z1 z2)
qed

text \<open>
  C6 does not hold of the code for a sample in braces: no cast carries the expression
  the claim describes.  For the claim's sample \<open>{1,2,3}\<close> the ladder builds the
  expression with \<open>, collection_open='{'\<close> and \<open>, collection_close='}'\<close>.  Line 264
  then calls \<open>format\<close> on it.  The two braces are not escaped, so \<open>format\<close> reads what
  lies between them, \<open>'\<close>, a line break, forty spaces and \<open>, collection_close='\<close>, as
  the name of a replacement field and raises a \<open>KeyError\<close>.  The cast ends in a
  \<open>ConversionError\<close> after the version check and the format-inference probe: no
  validation probe is sent, nothing is appended, the column is what it was.  The same
  cast with the sample \<open>(1,2,3)\<close> is accepted, and the entry it appends carries
  \<open>, collection_open='('\<close> and \<open>, collection_close=')'\<close>.  Evaluated with a
  \<open>clean_query\<close> that keeps the text.
\<close>

theorem brace_array_cast_fails:
  "fst (transformation_2 (scenario [11, 0, 0] (\<lambda>q. Inr (Some ''{1,2,3}''))) ''array'' text_column)
     = Inr (array_transformation ''{1,2,3}'' '','', ''array'') \<and>
   array_transformation ''{1,2,3}'' '','' =
     ''\<newline>                        STRING_TO_ARRAY({} \<newline>                                        USING PARAMETERS \<newline>                                        collection_delimiter=','\<newline>                                        , collection_open='{'\<newline>                                        , collection_close='}'\<newline>                                        )'' \<and>
   format_plain (array_transformation ''{1,2,3}'' '','') ''age'' =
     Inl (Exn KeyError
            ([CHR 0x22, CHR 0x27, CHR 0x5C] @
             ''n                                        , collection_close='' @ sq @ [CHR 0x22])) \<and>
   brace_array_cast =
     (Inl (Exn ConversionError
            ([CHR 0x22, CHR 0x27, CHR 0x5C] @
             ''n                                        , collection_close='' @ sq @ [CHR 0x22] @
             ''\<newline>The vDataColumn age can not be converted to array'')),
      text_column\<lparr>requests :=
        [VersionCheck [10, 0, 0], ExecuteSQL (biggest_str_query ''age'' ''t'')]\<rparr>) \<and>
   column (snd brace_array_cast) = column text_column \<and>
   fst paren_array_cast = Inr () \<and>
   last (c_transf (column (snd paren_array_cast))) =
     (''\<newline>                        STRING_TO_ARRAY({} \<newline>                                        USING PARAMETERS \<newline>                                        collection_delimiter=','\<newline>                                        , collection_open='('\<newline>                                        , collection_close=')'\<newline>                                        )'',
      ''array'', ''text'')"
proof -
  have one: "fst (transformation_2 (scenario [11, 0, 0] (\<lambda>q. Inr (Some ''{1,2,3}''))) ''array''
                    text_column)
     = Inr (array_transformation ''{1,2,3}'' '','', ''array'')"
    by (simp add: transformation_2_def extract_from_text_def probe_and_extract_def
          call_executeSQL_def call_vertica_version_def category_def scenario_defs python_defs
          text_column_def Let_def)
  have two: "array_transformation ''{1,2,3}'' '','' =
     ''\<newline>                        STRING_TO_ARRAY({} \<newline>                                        USING PARAMETERS \<newline>                                        collection_delimiter=','\<newline>                                        , collection_open='{'\<newline>                                        , collection_close='}'\<newline>                                        )''"
    by (simp add: array_transformation_def collection_open_def collection_close_def
          bracketed_def collection_null_element_def python_defs)
  have three: "format_plain (array_transformation ''{1,2,3}'' '','') ''age'' =
     Inl (Exn KeyError
            ([CHR 0x22, CHR 0x27, CHR 0x5C] @
             ''n                                        , collection_close='' @ sq @ [CHR 0x22]))"
    unfolding two by (simp add: scenario_defs Let_def)
  have four: "brace_array_cast =
     (Inl (Exn ConversionError
            ([CHR 0x22, CHR 0x27, CHR 0x5C] @
             ''n                                        , collection_close='' @ sq @ [CHR 0x22] @
             ''\<newline>The vDataColumn age can not be converted to array'')),
      text_column\<lparr>requests :=
        [VersionCheck [10, 0, 0], ExecuteSQL (biggest_str_query ''age'' ''t'')]\<rparr>)"
    by (simp add: brace_array_cast_def astype_defs scenario_defs python_defs text_column_def
          Let_def array_transformation_def collection_open_def collection_close_def
          bracketed_def collection_null_element_def)
  have five: "column (snd brace_array_cast) = column text_column"
    unfolding four by simp
  have six: "fst paren_array_cast = Inr () \<and>
     last (c_transf (column (snd paren_array_cast))) =
       (''\<newline>                        STRING_TO_ARRAY({} \<newline>                                        USING PARAMETERS \<newline>                                        collection_delimiter=','\<newline>                                        , collection_open='('\<newline>                                        , collection_close=')'\<newline>                                        )'',
        ''array'', ''text'')"
    by (simp add: paren_array_cast_def astype_defs scenario_defs python_defs text_column_def
          Let_def array_transformation_def collection_open_def collection_close_def
          bracketed_def collection_null_element_def)
  from one two three four five six show ?thesis by blast
qed

section \<open>C10: the header names of \<open>vmap(...)\<close>\<close>





section \<open>C5: the separator\<close>

lemma find_the_only:
  "x \<in> set xs \<Longrightarrow> (\<forall>y \<in> set xs. P y \<longleftrightarrow> y = x) \<Longrightarrow> find P xs = Some x"
  by (induction xs) auto

lemma counts_of_sample:
  "py_count ''1,2;3,4'' '','' = 2" "py_count ''1,2;3,4'' '';'' = 1" "py_count ''1,2;3,4'' ''|'' = 0"
  by (simp_all add: py_count_def)

lemma guess_sep_spec_sample:
  assumes "set cs \<subseteq> {'','', '';'', ''|''}" and "'','' \<in> set cs"
  shows "guess_sep_spec cs ''1,2;3,4'' = Some '',''"
  unfolding guess_sep_spec_def
proof (rule find_the_only [OF assms(2)], intro ballI)
  fix y assume y: "y \<in> set cs"
  with assms(1) consider "y = '',''" | "y = '';''" | "y = ''|''" by auto
  then show "(0 < py_count ''1,2;3,4'' y \<and>
              (\<forall>d\<in>set cs. py_count ''1,2;3,4'' d \<le> py_count ''1,2;3,4'' y)) = (y = '','')"
  proof cases
    case 1
    have "\<forall>d\<in>set cs. py_count ''1,2;3,4'' d \<le> 2"
      using assms(1) counts_of_sample by auto
    with 1 show ?thesis by (simp add: counts_of_sample)
  next
    case 2
    with assms(2) have "\<not> (\<forall>d\<in>set cs. py_count ''1,2;3,4'' d \<le> py_count ''1,2;3,4'' y)"
      by (auto simp: counts_of_sample intro!: bexI [of _ "'',''"])
    with 2 show ?thesis by simp
  next
    case 3
    then show ?thesis by (simp add: counts_of_sample)
  qed
qed

lemma guess_sep_spec_Some:
  assumes "guess_sep_spec cs sample = Some c"
  shows "c \<in> set cs \<and> 0 < py_count sample c \<and>
         (\<forall>d \<in> set cs. py_count sample d \<le> py_count sample c) \<and>
         (\<exists>i < length cs. cs ! i = c \<and>
            (\<forall>j < i. \<not> (0 < py_count sample (cs ! j) \<and>
                          (\<forall>d \<in> set cs. py_count sample d \<le> py_count sample (cs ! j)))))"
proof -
  from assms obtain i where i: "i < length cs" "cs ! i = c"
    "0 < py_count sample c \<and> (\<forall>d \<in> set cs. py_count sample d \<le> py_count sample c)"
    "\<forall>j < i. \<not> (0 < py_count sample (cs ! j) \<and>
                          (\<forall>d \<in> set cs. py_count sample d \<le> py_count sample (cs ! j)))"
    unfolding guess_sep_spec_def find_Some_iff by blast
  from i(1,2) have "c \<in> set cs" by auto
  with i show ?thesis by blast
qed

lemma vmap_template_of_sample:
  assumes "category (column s) = Inr ''text''"
    and "executeSQL env (biggest_str_query (c_alias (column s)) (genSQL env (column s)))
           = Inr (Some raw)"
  shows "fst (transformation_2 env ''vmap'' s) =
           Inr (vmap_transformation ''vmap'' (strip raw) (guess_sep env (strip raw)), ''vmap'')"
  using assms probe_and_extract_Some [OF assms(2), of "''vmap''"]
  by (simp add: transformation_2_text extract_from_text_def startswith_def)

text \<open>
  C5, for \<open>guess_sep\<close> as the spec describes it (\<open>guess_sep_spec\<close>, a function of the
  candidate list and the sample).  What it chooses is a candidate whose count in the
  sample is not zero and is the largest of all the candidates' counts, and no candidate
  before it in the list has these two properties.  For the sample \<open>1,2;3,4\<close> it is the
  comma, in whatever order a comma, a semicolon and a vertical bar are tried.  In the
  code, the one value \<open>guess_sep\<close> returns for the stripped sample is the \<open>delimiter\<close>
  of the delimited-map extractor and the \<open>collection_delimiter\<close> of the array
  extractor.
\<close>

theorem guess_sep_governs:
  "(guess_sep_spec cs sample = Some c \<longrightarrow>
      c \<in> set cs \<and> 0 < py_count sample c \<and>
      (\<forall>d \<in> set cs. py_count sample d \<le> py_count sample c) \<and>
      (\<exists>i < length cs. cs ! i = c \<and>
         (\<forall>j < i. \<not> (0 < py_count sample (cs ! j) \<and>
                       (\<forall>d \<in> set cs. py_count sample d \<le> py_count sample (cs ! j)))))) \<and>
   (set cs \<subseteq> {'','', '';'', ''|''} \<and> '','' \<in> set cs \<longrightarrow>
      guess_sep_spec cs ''1,2;3,4'' = Some '','') \<and>
   (category (column s) = Inr ''text'' \<and>
    executeSQL env (biggest_str_query (c_alias (column s)) (genSQL env (column s)))
      = Inr (Some raw) \<longrightarrow>
      fst (transformation_2 env ''vmap'' s) =
        Inr (vmap_transformation ''vmap'' (strip raw) (guess_sep env (strip raw)), ''vmap'') \<and>
      (\<forall>v. vertica_version env [10, 0, 0] = Inr v \<longrightarrow>
         fst (transformation_2 env ''array'' s) =
           Inr (array_transformation (strip raw) (guess_sep env (strip raw)), ''array''))) \<and>
   (\<not> (2 < length b \<and> hd b = CHR ''{'' \<and> last b = CHR ''}'') \<longrightarrow>
      vmap_transformation ''vmap'' b sep =
        ''MAPDELIMITEDEXTRACTOR({} \<newline>                                                            USING PARAMETERS \<newline>                                                            delimiter='' @
        sq @ sep @ sq @
        ''\<newline>                                                            )'') \<and>
   (\<exists>rest. array_transformation b sep =
        ''\<newline>                        STRING_TO_ARRAY({} \<newline>                                        USING PARAMETERS \<newline>                                        collection_delimiter='' @
        sq @ sep @ sq @ rest)"
proof (intro conjI impI allI)
  assume "guess_sep_spec cs sample = Some c"
  note r = guess_sep_spec_Some [OF this]
  from r show "c \<in> set cs" by blast
  from r show "0 < py_count sample c" by blast
  from r show "\<forall>d \<in> set cs. py_count sample d \<le> py_count sample c" by blast
  from r show "\<exists>i < length cs. cs ! i = c \<and>
         (\<forall>j < i. \<not> (0 < py_count sample (cs ! j) \<and>
                       (\<forall>d \<in> set cs. py_count sample d \<le> py_count sample (cs ! j))))"
    by blast
next
  assume "set cs \<subseteq> {'','', '';'', ''|''} \<and> '','' \<in> set cs"
  then show "guess_sep_spec cs ''1,2;3,4'' = Some '',''"
    using guess_sep_spec_sample by blast
next
  assume a: "category (column s) = Inr ''text'' \<and>
    executeSQL env (biggest_str_query (c_alias (column s)) (genSQL env (column s)))
      = Inr (Some raw)"
  then show "fst (transformation_2 env ''vmap'' s) =
        Inr (vmap_transformation ''vmap'' (strip raw) (guess_sep env (strip raw)), ''vmap'')"
    using vmap_template_of_sample by blast
  fix v assume "vertica_version env [10, 0, 0] = Inr v"
  with a array_template [of s env v raw]
  show "fst (transformation_2 env ''array'' s) =
           Inr (array_transformation (strip raw) (guess_sep env (strip raw)), ''array'')"
    by simp
next
  assume "\<not> (2 < length b \<and> hd b = CHR ''{'' \<and> last b = CHR ''}'')"
  then show "vmap_transformation ''vmap'' b sep =
        ''MAPDELIMITEDEXTRACTOR({} \<newline>                                                            USING PARAMETERS \<newline>                                                            delimiter='' @
        sq @ sep @ sq @
        ''\<newline>                                                            )''"
    by (simp add: vmap_transformation_def header_names_def)
next
  show "\<exists>rest. array_transformation b sep =
        ''\<newline>                        STRING_TO_ARRAY({} \<newline>                                        USING PARAMETERS \<newline>                                        collection_delimiter='' @
        sq @ sep @ sq @ rest"
    by (simp add: array_transformation_def)
qed

text \<open>The sample \<open>1,2;3,4\<close> with the candidates \<open>delimiters\<close>: the comma occurs,
  it is what is chosen, and both extractors carry it.\<close>

theorem guess_sep_governs_witness:
  "guess_sep_spec delimiters ''1,2;3,4'' = Some '','' \<and>
   0 < py_count ''1,2;3,4'' '','' \<and>
   guess_sep (scenario [11, 0, 0] (\<lambda>q. Inr (Some ''1,2;3,4''))) ''1,2;3,4'' = '','' \<and>
   fst (transformation_2 (scenario [11, 0, 0] (\<lambda>q. Inr (Some ''1,2;3,4''))) ''vmap'' text_column)
     = Inr (''MAPDELIMITEDEXTRACTOR({} \<newline>                                                            USING PARAMETERS \<newline>                                                            delimiter=','\<newline>                                                            )'',
            ''vmap'') \<and>
   fst (transformation_2 (scenario [11, 0, 0] (\<lambda>q. Inr (Some ''1,2;3,4''))) ''array'' text_column)
     = Inr (array_transformation ''1,2;3,4'' '','', ''array'')"
proof -
  let ?env = "scenario [11, 0, 0] (\<lambda>q. Inr (Some ''1,2;3,4''))"
  note t = guess_sep_governs [of delimiters "''1,2;3,4''" "'',''" text_column ?env "''1,2;3,4''"
      "''1,2;3,4''" "'',''"]
  have d: "set delimiters \<subseteq> {'','', '';'', ''|''} \<and> '','' \<in> set delimiters"
    by (simp add: delimiters_def)
  with t have g: "guess_sep_spec delimiters ''1,2;3,4'' = Some '',''" by blast
  with t have p: "0 < py_count ''1,2;3,4'' '',''" by blast
  have c: "category (column text_column) = Inr ''text'' \<and>
    executeSQL ?env (biggest_str_query (c_alias (column text_column))
        (genSQL ?env (column text_column))) = Inr (Some ''1,2;3,4'')"
    by (simp add: category_def text_column_def scenario_def)
  have v: "vertica_version ?env [10, 0, 0] = Inr [11, 0, 0]"
    by (simp add: scenario_defs)
  have s: "strip ''1,2;3,4'' = ''1,2;3,4''"
    by (simp add: python_defs)
  have gs: "guess_sep ?env ''1,2;3,4'' = '',''"
    using g by (simp add: scenario_def)
  have nb: "\<not> (2 < length ''1,2;3,4'' \<and> hd ''1,2;3,4'' = CHR ''{'' \<and> last ''1,2;3,4'' = CHR ''}'')"
    by simp
  from t c v have "fst (transformation_2 ?env ''vmap'' text_column) =
        Inr (vmap_transformation ''vmap'' ''1,2;3,4'' '','', ''vmap'')"
    and a: "fst (transformation_2 ?env ''array'' text_column) =
           Inr (array_transformation ''1,2;3,4'' '','', ''array'')"
    unfolding s gs by blast+
  moreover from t nb have "vmap_transformation ''vmap'' ''1,2;3,4'' '','' =
        ''MAPDELIMITEDEXTRACTOR({} \<newline>                                                            USING PARAMETERS \<newline>                                                            delimiter='' @
        sq @ '','' @ sq @
        ''\<newline>                                                            )''"
    by blast
  ultimately show ?thesis using g p gs by simp
qed

section \<open>C8: the predicates\<close>

lemma smalls_not_capitals: "list_all (\<lambda>d. d \<notin> set capitals) smalls"
  by (simp add: capitals_def smalls_def)

lemma lower_char_small:
  assumes "d \<in> set smalls"
  shows "lower_char d = d"
proof -
  from assms smalls_not_capitals have n: "d \<notin> set capitals"
    by (simp add: list_all_iff)
  have "map_of (zip capitals smalls) d = None"
  proof (rule ccontr)
    assume "map_of (zip capitals smalls) d \<noteq> None"
    then obtain e where "map_of (zip capitals smalls) d = Some e" by auto
    then have "(d, e) \<in> set (zip capitals smalls)" by (rule map_of_SomeD)
    then have "d \<in> set capitals" by (rule set_zip_leftD)
    with n show False by simp
  qed
  then show ?thesis by (simp add: lower_char_def)
qed

lemma lower_char_range: "lower_char c = c \<or> lower_char c \<in> set smalls"
proof (cases "map_of (zip capitals smalls) c")
  case None
  then show ?thesis by (simp add: lower_char_def)
next
  case (Some d)
  then have "(c, d) \<in> set (zip capitals smalls)" by (rule map_of_SomeD)
  then have "d \<in> set smalls" by (rule set_zip_rightD)
  with Some show ?thesis by (simp add: lower_char_def)
qed

lemma lower_char_idem: "lower_char (lower_char c) = lower_char c"
  using lower_char_range [of c] lower_char_small [of "lower_char c"] by auto

lemma lower_idem: "lower (lower x) = lower x"
  by (simp add: lower_def lower_char_idem)

lemma lower_take: "lower (take n x) = take n (lower x)"
  by (simp add: lower_def take_map)

text \<open>
  C8, as the code has it.  On a column whose chain is not empty (the invariant of the
  data model), \<open>category\<close> and \<open>ctype\<close> return the category \<open>g\<close> and the lower-cased
  declared type \<open>t\<close> of the last entry, and \<open>isnum\<close>, \<open>isbool\<close>, \<open>isdate\<close> and
  \<open>isarray\<close> return a truth value computed from \<open>g\<close> and \<open>t\<close> alone: they are
  functions of the column, take no engine and no state, and do not fail.  \<open>isvmap\<close>
  returns \<open>True\<close> and leaves the state as it is when \<open>g\<close> is \<open>vmap\<close>; otherwise its
  result (an exception included) is the flex helper's for the alias and the frame's SQL,
  and the helper's requests are added to the state.
\<close>

theorem predicates_read_the_last_entry:
  assumes "c_transf (column s) \<noteq> []"
    and "g = snd (snd (last (c_transf (column s))))"
    and "t = lower (fst (snd (last (c_transf (column s)))))"
  shows "category (column s) = Inr g \<and>
         ctype (column s) = Inr t \<and>
         isnum (column s) = Inr (g = ''float'' \<or> g = ''int'') \<and>
         isbool (column s) = Inr (take 4 t = ''bool'') \<and>
         isdate (column s) = Inr (g = ''date'') \<and>
         isarray (column s) = Inr (take 5 t = ''array'') \<and>
         isvmap env s =
           (if g = ''vmap'' then (Inr True, s)
            else (fst (flex_isvmap env (c_alias (column s)) (genSQL env (column s))),
                  s\<lparr>requests := requests s @
                      snd (flex_isvmap env (c_alias (column s)) (genSQL env (column s)))\<rparr>))"
proof -
  from assms have c: "category (column s) = Inr g" and t: "ctype (column s) = Inr t"
    by (simp_all add: category_def ctype_def)
  have "lower (take 5 t) = take 5 t"
    unfolding assms(3) by (simp add: lower_take lower_idem)
  with c t show ?thesis
    by (simp add: isnum_def isbool_def isdate_def isarray_def isvmap_def split: prod.splits)
qed

text \<open>The \<open>vmap\<close> column \<open>age\<close>: no predicate fails, and \<open>isvmap\<close> answers without
  the helper, even on an engine that rejects every query.\<close>

theorem predicates_read_the_last_entry_witness:
  "c_transf (column vmap_column) \<noteq> [] \<and>
   isnum (column vmap_column) = Inr False \<and>
   isbool (column vmap_column) = Inr False \<and>
   isdate (column vmap_column) = Inr False \<and>
   isarray (column vmap_column) = Inr False \<and>
   isvmap (flex_scenario rejecting) vmap_column = (Inr True, vmap_column)"
proof -
  have n: "c_transf (column vmap_column) \<noteq> []"
    by (simp add: vmap_column_def)
  have g: "''vmap'' = snd (snd (last (c_transf (column vmap_column))))"
    by (simp add: vmap_column_def)
  have t: "''vmap'' = lower (fst (snd (last (c_transf (column vmap_column)))))"
    by (simp add: vmap_column_def python_defs)
  from predicates_read_the_last_entry [OF n g t, of "flex_scenario rejecting"] n
  show ?thesis by simp
qed

text \<open>
  C8 as the spec states it fails for \<open>isvmap\<close> on a column that is not a \<open>vmap\<close>:
  with a helper that asks the engine, the call sends a query, raises when the engine
  rejects it, and for one and the same category and declared type answers \<open>True\<close> on
  one engine and \<open>False\<close> on another.
\<close>

theorem isvmap_asks_the_helper_counterexample:
  "category (column text_column) = Inr ''text'' \<and>
   ctype (column text_column) = Inr ''varchar'' \<and>
   isvmap (flex_scenario rejecting) text_column =
     (Inl (Exn EngineError ''cannot evaluate the expression''),
      text_column\<lparr>requests := [ExecuteSQL ''SELECT MAPVERSION(age) FROM t LIMIT 1'']\<rparr>) \<and>
   isvmap (flex_scenario (\<lambda>q. Inr (Some ''1''))) text_column =
     (Inr True,
      text_column\<lparr>requests := [ExecuteSQL ''SELECT MAPVERSION(age) FROM t LIMIT 1'']\<rparr>) \<and>
   isvmap (flex_scenario (\<lambda>q. Inr None)) text_column =
     (Inr False,
      text_column\<lparr>requests := [ExecuteSQL ''SELECT MAPVERSION(age) FROM t LIMIT 1'']\<rparr>)"
  by (simp add: isvmap_def category_def ctype_def text_column_def flex_scenario_def scenario_def
        probing_isvmap_def rejecting_def python_defs)

end
